theory Spec2Isabelle
  imports Complex_Main
begin

section \<open>Python values, exceptions and strings\<close>

text \<open>
  A Python call either returns a value or raises.  A raised exception is a value of
  \<open>pyexn\<close> (carrying \<open>str(e)\<close>), and a call that may raise has a result of type
  \<open>pyexn + 'a\<close>, \<open>Inl\<close> being the raise.  \<open>try_except\<close> is
  \<^verbatim>\<open>try: body  except Exception as e: handler(e)\<close>.
\<close>

datatype pyexn = PyExn string

text \<open>
  The values that reach the code in positional party records and JSON payloads: \<open>None\<close>,
  strings, integers, numbers and (for the order a party record may carry) a dictionary
  of strings.
\<close>

datatype pyval = PNone | PStr string | PInt int | PNum rat | PDict "(string \<times> string) list"

fun str_exn :: "pyexn \<Rightarrow> string" where
  "str_exn (PyExn m) = m"

definition bind_raise :: "pyexn + 'a \<Rightarrow> ('a \<Rightarrow> pyexn + 'b) \<Rightarrow> pyexn + 'b" where
  "bind_raise r f = (case r of Inl e \<Rightarrow> Inl e | Inr v \<Rightarrow> f v)"

definition try_except :: "pyexn + 'a \<Rightarrow> (pyexn \<Rightarrow> pyexn + 'a) \<Rightarrow> pyexn + 'a" where
  "try_except body handler = (case body of Inl e \<Rightarrow> handler e | Inr v \<Rightarrow> Inr v)"

text \<open>Amounts are Python floats in the source; the model computes with exact rationals.\<close>

type_synonym amount = rat

section \<open>The settlement contract's trade struct\<close>

text \<open>The struct handed to the contract; \<open>bytes32\<close> ids are kept symbolic.\<close>

datatype order_id_bytes = KeccakText string | HexBytes string

record trade_data =
  td_orderId :: order_id_bytes
  td_party1 :: string
  td_party2 :: string
  td_party1ReceiveWallet :: string
  td_party2ReceiveWallet :: string
  td_baseAsset :: string
  td_quoteAsset :: string
  td_price :: int
  td_quantity :: int
  td_party1Side :: string
  td_party2Side :: string
  td_sourceChainId :: "int option"
  td_destinationChainId :: "int option"
  td_timestamp :: int
  td_nonce1 :: int
  td_nonce2 :: int

record receipt =
  status :: int
  transactionHash :: string

section \<open>\<open>SettlementClientSame\<close>: the read operations\<close>

text \<open>
  The web3 library and the chain behind one client object.  Every operation is an
  external call that may raise (bad address, RPC error, revert).  \<open>account\<close> is the
  client's signing account, absent when no private key was given.  Building the
  transaction (nonce, chain id, fees) and signing it is the one step \<open>sign_transaction\<close>.
\<close>

record web3 =
  to_checksum_address :: "pyval \<Rightarrow> pyexn + string"
  checkEscrowBalance_call :: "string \<Rightarrow> string \<Rightarrow> pyexn + (int \<times> int \<times> int)"
  decimals_call :: "string \<Rightarrow> pyexn + int"
  getUserNonce_call :: "string \<Rightarrow> string \<Rightarrow> pyexn + int"
  owner_call :: "pyexn + string"
  account :: "string option"
  preflight_call :: "trade_data \<Rightarrow> pyexn + unit"
  sign_transaction :: "trade_data \<Rightarrow> pyexn + unit"
  send_raw_transaction :: "trade_data \<Rightarrow> pyexn + string"
  wait_for_transaction_receipt :: "string \<Rightarrow> pyexn + receipt"

text \<open>The dictionary returned by \<open>check_escrow_balance\<close>: the balances, or only an \<open>error\<close> key.\<close>

record balances =
  total :: amount
  total_wei :: int
  available :: amount
  available_wei :: int
  locked :: amount
  locked_wei :: int
  user :: string
  token :: string

datatype balance_info = BalanceError string | Balances balances

fun has_error :: "balance_info \<Rightarrow> bool" where
  "has_error (BalanceError m) = True"
| "has_error (Balances b) = False"

text \<open>\<open>balance_info.get("available", 0)\<close> and its siblings.\<close>

fun get_available :: "balance_info \<Rightarrow> amount" where
  "get_available (BalanceError m) = 0"
| "get_available (Balances b) = available b"

fun get_total :: "balance_info \<Rightarrow> amount" where
  "get_total (BalanceError m) = 0"
| "get_total (Balances b) = total b"

fun get_locked :: "balance_info \<Rightarrow> amount" where
  "get_locked (BalanceError m) = 0"
| "get_locked (Balances b) = locked b"

text \<open>\<open>10**token_decimals\<close>, a float for a negative exponent.\<close>

definition divisor :: "int \<Rightarrow> amount" where
  "divisor token_decimals =
     (if 0 \<le> token_decimals then 10 ^ nat token_decimals else 1 / 10 ^ nat (- token_decimals))"

definition check_escrow_balance :: "web3 \<Rightarrow> pyval \<Rightarrow> pyval \<Rightarrow> int \<Rightarrow> pyexn + balance_info" where
  "check_escrow_balance w user_address token_address token_decimals =
     try_except
       (bind_raise (to_checksum_address w user_address) (\<lambda>user_address.
        bind_raise (to_checksum_address w token_address) (\<lambda>token_address.
        bind_raise (checkEscrowBalance_call w user_address token_address) (\<lambda>(tot, avail, lck).
          Inr (Balances \<lparr>total = of_int tot / divisor token_decimals, total_wei = tot,
                          available = of_int avail / divisor token_decimals, available_wei = avail,
                          locked = of_int lck / divisor token_decimals, locked_wei = lck,
                          user = user_address, token = token_address\<rparr>)))))
       (\<lambda>e. Inr (BalanceError (str_exn e)))"

definition get_token_decimals :: "web3 \<Rightarrow> pyval \<Rightarrow> pyexn + int" where
  "get_token_decimals w token_address =
     try_except
       (bind_raise (to_checksum_address w token_address) (\<lambda>a. decimals_call w a))
       (\<lambda>e. Inr 18)"

definition get_user_nonce :: "web3 \<Rightarrow> pyval \<Rightarrow> pyval \<Rightarrow> pyexn + int" where
  "get_user_nonce w user_address token_address =
     try_except
       (bind_raise (to_checksum_address w user_address) (\<lambda>u.
        bind_raise (to_checksum_address w token_address) (\<lambda>t.
          getUserNonce_call w u t)))
       (\<lambda>e. Inr 0)"

text \<open>
  The three lookups seen from inside: the body of the \<open>try\<close> of each, which does raise
  when an address is malformed or the RPC call fails.
\<close>

definition read_balance_raw :: "web3 \<Rightarrow> pyval \<Rightarrow> pyval \<Rightarrow> pyexn + (int \<times> int \<times> int)" where
  "read_balance_raw w u t =
     bind_raise (to_checksum_address w u) (\<lambda>u'.
     bind_raise (to_checksum_address w t) (\<lambda>t'. checkEscrowBalance_call w u' t'))"

definition read_decimals_raw :: "web3 \<Rightarrow> pyval \<Rightarrow> pyexn + int" where
  "read_decimals_raw w t = bind_raise (to_checksum_address w t) (\<lambda>a. decimals_call w a)"

definition read_nonce_raw :: "web3 \<Rightarrow> pyval \<Rightarrow> pyval \<Rightarrow> pyexn + int" where
  "read_nonce_raw w u t =
     bind_raise (to_checksum_address w u) (\<lambda>u'.
     bind_raise (to_checksum_address w t) (\<lambda>t'. getUserNonce_call w u' t'))"

section \<open>Strings\<close>

text \<open>\<open>str.lower()\<close>, \<open>str.upper()\<close> and \<open>str.strip()\<close> on ASCII text, and \<open>str(n)\<close> of an integer.\<close>

definition lower_char :: "char \<Rightarrow> char" where
  "lower_char c = (let n = (of_char c :: nat) in if 65 \<le> n \<and> n \<le> 90 then char_of (n + 32) else c)"

definition upper_char :: "char \<Rightarrow> char" where
  "upper_char c = (let n = (of_char c :: nat) in if 97 \<le> n \<and> n \<le> 122 then char_of (n - 32) else c)"

definition lower :: "string \<Rightarrow> string" where
  "lower s = map lower_char s"

definition upper :: "string \<Rightarrow> string" where
  "upper s = map upper_char s"

definition is_space :: "char \<Rightarrow> bool" where
  "is_space c = ((of_char c :: nat) \<in> {9, 10, 11, 12, 13, 28, 29, 30, 31, 32})"

definition strip :: "string \<Rightarrow> string" where
  "strip s = rev (dropWhile is_space (rev (dropWhile is_space s)))"

definition digit_char :: "nat \<Rightarrow> char" where
  "digit_char d = char_of (48 + d)"

fun str_nat :: "nat \<Rightarrow> string" where
  "str_nat n = (if n < 10 then [digit_char n] else str_nat (n div 10) @ [digit_char (n mod 10)])"

declare str_nat.simps [simp del]

definition str_int :: "int \<Rightarrow> string" where
  "str_int i = (if i < 0 then CHR ''-'' # str_nat (nat (- i)) else str_nat (nat i))"

text \<open>\<open>a or b or ""\<close> on optional strings: the first that is present and not empty.\<close>

fun or_str :: "string option \<Rightarrow> string option \<Rightarrow> string" where
  "or_str (Some a) b = (if a \<noteq> [] then a else (case b of Some b' \<Rightarrow> b' | None \<Rightarrow> []))"
| "or_str None b = (case b of Some b' \<Rightarrow> b' | None \<Rightarrow> [])"

text \<open>\<open>d[k]\<close> on a key that may be missing.\<close>

definition subscript :: "string \<Rightarrow> 'a option \<Rightarrow> pyexn + 'a" where
  "subscript k v = (case v of None \<Rightarrow> Inl (PyExn k) | Some x \<Rightarrow> Inr x)"

text \<open>\<open>int(x)\<close> of a number truncates towards zero.\<close>

definition trunc :: "rat \<Rightarrow> int" where
  "trunc r = (if 0 \<le> r then \<lfloor>r\<rfloor> else \<lceil>r\<rceil>)"

section \<open>Configuration\<close>

text \<open>
  One entry of \<open>SUPPORTED_NETWORKS\<close>, and the dictionaries as association lists read
  with \<open>map_of\<close>.  A missing key and a key bound to \<open>None\<close> are both \<open>None\<close>.
\<close>

record network_cfg =
  rpc :: "string option"
  contract_address :: "string option"
  chain_id :: "int option"
  tokens :: "(string \<times> string) list"

type_synonym networks = "(string \<times> network_cfg) list"

record config =
  SUPPORTED_NETWORKS :: networks
  TOKEN_ADDRESSES :: "(string \<times> string) list"
  TRADE_SETTLEMENT_CONTRACT_ADDRESS :: "string option"
  PRIVATE_KEY :: "string option"
  SETTLEMENT_SYNC_TIMEOUT :: "pyexn + int"
  activity_log :: bool
  append_file :: bool

definition get_token_address :: "string \<Rightarrow> string \<Rightarrow> networks \<Rightarrow> (string \<times> string) list \<Rightarrow> string" where
  "get_token_address symbol network_key SN TA =
     (let symbol_up = upper symbol;
          toks = (case map_of SN network_key of None \<Rightarrow> [] | Some net \<Rightarrow> tokens net);
          addr = (case map_of toks symbol_up of None \<Rightarrow> [] | Some a \<Rightarrow> a)
      in if addr \<noteq> [] then addr
         else if TA \<noteq> [] then
           (let network_suffix = upper network_key;
                key_with_net = symbol_up @ ''_'' @ network_suffix
            in if network_suffix \<noteq> [] \<and> map_of TA key_with_net \<noteq> None
               then the (map_of TA key_with_net)
               else if lower network_key = ''hedera''
               then (case map_of TA symbol_up of None \<Rightarrow> [] | Some a \<Rightarrow> a)
               else [])
         else [])"

section \<open>Trades, settlement calls and their results\<close>

record trade =
  timestamp :: int
  price :: amount
  quantity :: amount
  time :: int
  party1 :: "pyval list"
  party2 :: "pyval list"

text \<open>The arguments of one \<open>settle_same_chain_trade\<close> / \<open>settle_cross_chain_trade\<close> call.\<close>

record settle_args =
  sa_order_id :: string
  sa_party1 :: pyval
  sa_party2 :: pyval
  sa_party1_receive_wallet :: pyval
  sa_party2_receive_wallet :: pyval
  sa_base_asset :: string
  sa_quote_asset :: string
  sa_price :: amount
  sa_quantity :: amount
  sa_party1_side :: string
  sa_party2_side :: string
  sa_source_chain_id :: "int option"
  sa_destination_chain_id :: "int option"
  sa_timestamp :: int
  sa_nonce1 :: int
  sa_nonce2 :: int

text \<open>The dictionary a settlement call returns.\<close>

record settle_result =
  success :: bool
  transaction_hash :: "string option"
  error :: "string option"
  skipped :: bool
  reason :: "string option"

datatype details = OwnerSigner string string | RequiredAvailable amount amount

text \<open>The \<open>settlement_result\<close> entry of one trade.\<close>

datatype trade_settlement =
    Failed string "details option"
  | Legs bool settle_result settle_result "string option"

fun settlement_success :: "trade_settlement \<Rightarrow> bool" where
  "settlement_success (Failed e d) = False"
| "settlement_success (Legs ok src dst oid) = ok"

text \<open>What \<open>settle_trades_if_any\<close> returns, and the other values \<open>settlement_info\<close> takes.\<close>

datatype settlement_info =
    NotSettled
  | NotSettledReason string
  | NotSettledError string
  | Settled "(trade \<times> trade_settlement) list" nat nat

section \<open>The outside world and the trace of calls\<close>

text \<open>
  Every call that leaves the process is recorded, in order, in a trace of events.  The
  answer of the outside world to a call may depend on everything that happened before,
  so each operation of the world takes the trace so far.
\<close>

type_synonym client = "string option \<times> string option"

text \<open>The records of the activity log: a placement, and an executed trade with its hashes.\<close>

datatype activity =
    OrderPlaced string int string string amount amount int
  | TradeExecuted string amount amount int "string option" "string option" "string option"

datatype event =
    NewClient client
  | CheckEscrowBalance client pyval pyval int
  | GetTokenDecimals client pyval
  | GetUserNonce client pyval pyval
  | GetContractOwner client
  | Sleep rat
  | SettleSameChainTrade client settle_args
  | SettleCrossChainTrade client settle_args bool
  | ProcessOrder string
  | CancelOrder string string int
  | ActivityLogAppend activity
  | AppendFile activity
  | NewCrossClient "string option"
  | CrossCheckEscrowBalance "string option" "string option" string string
  | TokenHex
  | Time
  | CrossSettle "string option" "string option" trade_data bool

type_synonym 'a io = "event list \<Rightarrow> (pyexn + 'a) \<times> event list"

definition return :: "'a \<Rightarrow> 'a io" where
  "return v = (\<lambda>tr. (Inr v, tr))"

definition lift :: "pyexn + 'a \<Rightarrow> 'a io" where
  "lift r = (\<lambda>tr. (r, tr))"

definition io_bind :: "'a io \<Rightarrow> ('a \<Rightarrow> 'b io) \<Rightarrow> 'b io" where
  "io_bind m f = (\<lambda>tr. case m tr of (Inl e, tr') \<Rightarrow> (Inl e, tr') | (Inr v, tr') \<Rightarrow> f v tr')"

definition io_try :: "'a io \<Rightarrow> (pyexn \<Rightarrow> 'a io) \<Rightarrow> 'a io" where
  "io_try m h = (\<lambda>tr. case m tr of (Inl e, tr') \<Rightarrow> h e tr' | (Inr v, tr') \<Rightarrow> (Inr v, tr'))"

definition call :: "event \<Rightarrow> (event list \<Rightarrow> pyexn + 'a) \<Rightarrow> 'a io" where
  "call ev answer = (\<lambda>tr. (answer tr, tr @ [ev]))"

definition sleep :: "rat \<Rightarrow> unit io" where
  "sleep secs = call (Sleep secs) (\<lambda>tr. Inr ())"

text \<open>
  The order book (\<open>OrderBook\<close>) is not part of the sources: \<open>process_order\<close> and
  \<open>cancel_order\<close> are operations of the world.  An order is the dictionary handed to
  \<open>process_order\<close> and handed back; \<open>order_id\<close> and \<open>timestamp\<close> are set by the book.
  \<open>pr_quote\<close> is the dictionary that was passed in, as the book left it.
\<close>

record order =
  o_type :: string
  o_trade_id :: string
  o_from_network :: string
  o_to_network :: string
  o_receive_wallet :: "string option"
  o_account :: string
  o_price :: amount
  o_quantity :: amount
  o_side :: string
  o_baseAsset :: string
  o_quoteAsset :: string
  o_order_id :: "int option"
  o_timestamp :: "int option"

record process_result =
  pr_success :: bool
  pr_message :: string
  pr_trades :: "trade list"
  pr_order :: "order option"
  pr_quote :: order

text \<open>
  Modelled from the spec: \<open>SettlementClientSame.settle_cross_chain_trade\<close>, which the
  settlement orchestrator calls on both clients but which the client's source does not
  define.  The spec's ledger adapter gives it the trade and \<open>is_source_chain\<close> and has it
  return a dictionary with a success flag and a transaction hash or an error; here it is
  the world's operation \<open>cross_leg\<close>, which may also raise.

  \<open>sha256_hexdigest\<close> is \<open>hashlib.sha256(s.encode()).hexdigest()\<close>, a function of the
  string alone.  \<open>timed_out\<close> tells whether \<open>asyncio.wait_for\<close> gave up on the settlement
  after the given number of seconds.  The \<open>cross_\<close> operations are the web3 calls made by
  \<open>SettlementClientCross\<close>; \<open>token_hex\<close> is \<open>secrets.token_hex(32)\<close>, \<open>time_now\<close> is
  \<open>int(time())\<close> and \<open>to_checksum\<close> is the static \<open>Web3.to_checksum_address\<close>.
\<close>

record world =
  connect :: "event list \<Rightarrow> client \<Rightarrow> pyexn + unit"
  web3_at :: "event list \<Rightarrow> client \<Rightarrow> web3"
  cross_leg :: "event list \<Rightarrow> client \<Rightarrow> settle_args \<Rightarrow> bool \<Rightarrow> pyexn + settle_result"
  sha256_hexdigest :: "string \<Rightarrow> string"
  process_order_call :: "event list \<Rightarrow> string \<Rightarrow> order \<Rightarrow> pyexn + process_result"
  cancel_order_call :: "event list \<Rightarrow> string \<Rightarrow> string \<Rightarrow> int \<Rightarrow> pyexn + unit"
  timed_out :: "event list \<Rightarrow> int \<Rightarrow> bool"
  cross_connect :: "event list \<Rightarrow> string option \<Rightarrow> pyexn + unit"
  cross_checkEscrowBalance ::
    "event list \<Rightarrow> string option \<Rightarrow> string option \<Rightarrow> string \<Rightarrow> string \<Rightarrow> pyexn + (int \<times> int \<times> int)"
  cross_settle :: "event list \<Rightarrow> string option \<Rightarrow> string option \<Rightarrow> trade_data \<Rightarrow> bool \<Rightarrow> pyexn + receipt"
  token_hex :: "event list \<Rightarrow> string"
  time_now :: "event list \<Rightarrow> int"
  to_checksum :: "pyval \<Rightarrow> pyexn + string"

text \<open>
  \<open>SettlementClientSame(rpc, contract_address, PRIVATE_KEY)\<close>: the constructor raises
  when the node is not reachable or an argument is malformed.
\<close>

definition new_client :: "world \<Rightarrow> client \<Rightarrow> client io" where
  "new_client W c = io_bind (call (NewClient c) (\<lambda>tr. connect W tr c)) (\<lambda>u. return c)"

definition do_check_escrow_balance :: "world \<Rightarrow> client \<Rightarrow> pyval \<Rightarrow> pyval \<Rightarrow> int \<Rightarrow> balance_info io" where
  "do_check_escrow_balance W c u t d =
     call (CheckEscrowBalance c u t d) (\<lambda>tr. check_escrow_balance (web3_at W tr c) u t d)"

definition do_get_token_decimals :: "world \<Rightarrow> client \<Rightarrow> pyval \<Rightarrow> int io" where
  "do_get_token_decimals W c t =
     call (GetTokenDecimals c t) (\<lambda>tr. get_token_decimals (web3_at W tr c) t)"

definition do_get_user_nonce :: "world \<Rightarrow> client \<Rightarrow> pyval \<Rightarrow> pyval \<Rightarrow> int io" where
  "do_get_user_nonce W c u t =
     call (GetUserNonce c u t) (\<lambda>tr. get_user_nonce (web3_at W tr c) u t)"

section \<open>\<open>APIHelper.validate_order_prerequisites\<close>\<close>

text \<open>
  The request payload.  A field read with \<open>payload[...]\<close> is optional here and its
  absence raises; \<open>quantity\<close> and \<open>price\<close> are absent also when \<open>float(...)\<close> rejects them.
\<close>

record payload =
  p_attach_signature :: bool
  p_account :: "string option"
  p_side :: "string option"
  p_quantity :: "amount option"
  p_price :: "amount option"
  p_from_network :: "string option"
  p_fromNetwork :: "string option"
  p_to_network :: "string option"
  p_toNetwork :: "string option"
  p_baseAsset :: "string option"
  p_quoteAsset :: "string option"
  p_type :: "string option"
  p_receive_wallet :: "string option"
  p_receiveWallet :: "string option"

record checks =
  c_account :: string
  c_side :: string
  c_token :: string
  c_required_amount :: amount
  c_available_escrow :: amount
  c_total_escrow :: amount
  c_locked_escrow :: amount
  c_network_key :: string
  c_token_decimals :: int

datatype validation_error =
    TokenNotConfigured string string
  | InsufficientEscrow amount amount
  | ValidationError string

record validation =
  valid :: bool
  errors :: "validation_error list"
  checks :: "checks option"

definition default_decimals :: "string \<Rightarrow> int" where
  "default_decimals symbol_for_decimals =
     (case map_of [(''USDT'', 6), (''HBAR'', 18)] (upper symbol_for_decimals) of
        Some d \<Rightarrow> d | None \<Rightarrow> 18)"

text \<open>The loop \<open>for attempt in range(3)\<close> around \<open>client.get_token_decimals\<close>.\<close>

fun decimals_loop :: "world \<Rightarrow> client \<Rightarrow> pyval \<Rightarrow> int \<Rightarrow> nat list \<Rightarrow> int io" where
  "decimals_loop W c tok token_decimals [] tr = (Inr token_decimals, tr)"
| "decimals_loop W c tok token_decimals (attempt # rest) tr =
     (case do_get_token_decimals W c tok tr of
        (Inr d, tr') \<Rightarrow> (Inr d, tr')
      | (Inl e, tr') \<Rightarrow>
          if attempt = 2 then (Inr token_decimals, tr')
          else decimals_loop W c tok token_decimals rest
                 (tr' @ [Sleep (1 / 2 * (of_nat attempt + 1))]))"

text \<open>The loop \<open>for attempt in range(4)\<close> around \<open>client.check_escrow_balance\<close>.\<close>

fun balance_loop ::
  "world \<Rightarrow> client \<Rightarrow> pyval \<Rightarrow> pyval \<Rightarrow> int \<Rightarrow> balance_info \<Rightarrow> nat list \<Rightarrow> balance_info io" where
  "balance_loop W c u tok d balance_info [] tr = (Inr balance_info, tr)"
| "balance_loop W c u tok d balance_info (attempt # rest) tr =
     (case do_check_escrow_balance W c u tok d tr of
        (Inr b, tr') \<Rightarrow>
          if \<not> has_error b then (Inr b, tr')
          else balance_loop W c u tok d b rest (tr' @ [Sleep (1 / 2 * (of_nat attempt + 1))])
      | (Inl e, tr') \<Rightarrow>
          balance_loop W c u tok d (BalanceError (str_exn e)) rest
            (tr' @ [Sleep (1 / 2 * (of_nat attempt + 1))]))"

definition token_configured :: "string \<Rightarrow> bool" where
  "token_configured token_to_check =
     (token_to_check \<noteq> [] \<and> take 2 token_to_check = ''0x'' \<and> length token_to_check = 42)"

definition validate_order_prerequisites :: "world \<Rightarrow> config \<Rightarrow> payload \<Rightarrow> validation io" where
  "validate_order_prerequisites W cfg order_data =
     io_try
      (io_bind (lift (subscript ''account'' (p_account order_data))) (\<lambda>account.
       io_bind (lift (subscript ''side'' (p_side order_data))) (\<lambda>side.
       io_bind (lift (subscript ''quantity'' (p_quantity order_data))) (\<lambda>quantity.
       io_bind (lift (subscript ''price'' (p_price order_data))) (\<lambda>price.
       let from_network = lower (or_str (p_from_network order_data) (p_fromNetwork order_data)) in
       io_bind (lift (subscript ''baseAsset'' (p_baseAsset order_data))) (\<lambda>baseAsset.
       let base_asset_from = get_token_address baseAsset from_network
                               (SUPPORTED_NETWORKS cfg) (TOKEN_ADDRESSES cfg) in
       io_bind (lift (subscript ''quoteAsset'' (p_quoteAsset order_data))) (\<lambda>quoteAsset.
       let quote_asset_from = get_token_address quoteAsset from_network
                                (SUPPORTED_NETWORKS cfg) (TOKEN_ADDRESSES cfg);
           required_amount = (if lower side = ''ask'' then quantity else quantity * price);
           token_to_check = (if lower side = ''ask'' then base_asset_from else quote_asset_from);
           network_key = from_network
       in if \<not> token_configured token_to_check
          then return \<lparr>valid = False,
                       errors = [TokenNotConfigured
                                   (if lower side = ''ask'' then baseAsset else quoteAsset) network_key],
                       checks = None\<rparr>
          else
            let net_cfg = map_of (SUPPORTED_NETWORKS cfg) network_key;
                c = (case net_cfg of None \<Rightarrow> (None, None)
                     | Some n \<Rightarrow> (rpc n, contract_address n));
                symbol_for_decimals = (if lower side = ''ask'' then baseAsset else quoteAsset)
            in io_bind (new_client W c) (\<lambda>client.
               io_bind (decimals_loop W client (PStr token_to_check)
                          (default_decimals symbol_for_decimals) [0, 1, 2]) (\<lambda>token_decimals.
               io_bind (balance_loop W client (PStr account) (PStr token_to_check) token_decimals
                          (BalanceError []) [0, 1, 2, 3]) (\<lambda>balance_info.
               let avail = get_available balance_info;
                   chk = \<lparr>c_account = account, c_side = side, c_token = token_to_check,
                          c_required_amount = required_amount, c_available_escrow = avail,
                          c_total_escrow = get_total balance_info,
                          c_locked_escrow = get_locked balance_info,
                          c_network_key = network_key, c_token_decimals = token_decimals\<rparr>
               in if avail < required_amount
                  then return \<lparr>valid = False,
                               errors = [InsufficientEscrow required_amount avail],
                               checks = Some chk\<rparr>
                  else return \<lparr>valid = True, errors = [], checks = Some chk\<rparr>))))))))))
      (\<lambda>e. return \<lparr>valid = False, errors = [ValidationError (str_exn e)], checks = None\<rparr>)"

section \<open>\<open>SettlementClientSame\<close>: owner, signer and same-chain settlement\<close>

definition get_contract_owner :: "web3 \<Rightarrow> pyexn + string" where
  "get_contract_owner w = try_except (owner_call w) (\<lambda>e. Inr [])"

definition get_signer_address :: "web3 \<Rightarrow> pyexn + string" where
  "get_signer_address w = Inr (case account w of None \<Rightarrow> [] | Some a \<Rightarrow> a)"

definition zfill :: "nat \<Rightarrow> string \<Rightarrow> string" where
  "zfill n s = replicate (n - length s) CHR ''0'' @ s"

definition failure :: "string \<Rightarrow> settle_result" where
  "failure msg = \<lparr>success = False, transaction_hash = None, error = Some msg,
                   skipped = False, reason = None\<rparr>"

text \<open>
  \<open>settle_same_chain_trade\<close> with the default 18 price and quantity decimals.  The
  diagnostics reads and the gas estimate do not influence the outcome and are left out.
\<close>

definition settle_same_chain_trade :: "web3 \<Rightarrow> settle_args \<Rightarrow> pyexn + settle_result" where
  "settle_same_chain_trade w a =
     (case account w of
        None \<Rightarrow> Inl (PyExn ''No private key provided for transaction signing'')
      | Some acct \<Rightarrow>
          try_except
            (let order_id_bytes =
                   (if take 2 (sa_order_id a) = ''0x''
                    then HexBytes (zfill 64 (drop 2 (sa_order_id a)))
                    else KeccakText (sa_order_id a));
                 price_wei = trunc (sa_price a * 10 ^ 18);
                 quantity_wei = trunc (sa_quantity a * 10 ^ 18)
             in bind_raise (to_checksum_address w (sa_party1 a)) (\<lambda>p1.
                bind_raise (to_checksum_address w (sa_party2 a)) (\<lambda>p2.
                bind_raise (to_checksum_address w (sa_party1_receive_wallet a)) (\<lambda>r1.
                bind_raise (to_checksum_address w (sa_party2_receive_wallet a)) (\<lambda>r2.
                bind_raise (to_checksum_address w (PStr (sa_base_asset a))) (\<lambda>base.
                bind_raise (to_checksum_address w (PStr (sa_quote_asset a))) (\<lambda>quote.
                let trade_data =
                      \<lparr>td_orderId = order_id_bytes, td_party1 = p1, td_party2 = p2,
                       td_party1ReceiveWallet = r1, td_party2ReceiveWallet = r2,
                       td_baseAsset = base, td_quoteAsset = quote,
                       td_price = price_wei, td_quantity = quantity_wei,
                       td_party1Side = sa_party1_side a, td_party2Side = sa_party2_side a,
                       td_sourceChainId = sa_source_chain_id a,
                       td_destinationChainId = sa_destination_chain_id a,
                       td_timestamp = sa_timestamp a,
                       td_nonce1 = sa_nonce1 a, td_nonce2 = sa_nonce2 a\<rparr>
                in case preflight_call w trade_data of
                     Inl pre_err \<Rightarrow> Inr (failure (''preflight_revert: '' @ str_exn pre_err))
                   | Inr u \<Rightarrow>
                       bind_raise (sign_transaction w trade_data) (\<lambda>signed_tx.
                       case send_raw_transaction w trade_data of
                         Inl send_err \<Rightarrow>
                           Inr (failure
                                  (case preflight_call w trade_data of
                                     Inl detail_err \<Rightarrow>
                                       str_exn send_err @ '' | detail: '' @ str_exn detail_err
                                   | Inr u' \<Rightarrow> str_exn send_err))
                       | Inr tx_hash \<Rightarrow>
                           bind_raise (wait_for_transaction_receipt w tx_hash) (\<lambda>receipt.
                           Inr \<lparr>success = (status receipt = 1),
                                transaction_hash = Some (transactionHash receipt),
                                error = None, skipped = False, reason = None\<rparr>)))))))))
            (\<lambda>e. Inr (failure (str_exn e))))"

definition do_get_contract_owner :: "world \<Rightarrow> client \<Rightarrow> string io" where
  "do_get_contract_owner W c =
     call (GetContractOwner c) (\<lambda>tr. get_contract_owner (web3_at W tr c))"

definition do_get_signer_address :: "world \<Rightarrow> client \<Rightarrow> string io" where
  "do_get_signer_address W c = (\<lambda>tr. (get_signer_address (web3_at W tr c), tr))"

definition do_settle_same_chain_trade :: "world \<Rightarrow> client \<Rightarrow> settle_args \<Rightarrow> settle_result io" where
  "do_settle_same_chain_trade W c a =
     call (SettleSameChainTrade c a) (\<lambda>tr. settle_same_chain_trade (web3_at W tr c) a)"

definition do_settle_cross_chain_trade ::
  "world \<Rightarrow> client \<Rightarrow> settle_args \<Rightarrow> bool \<Rightarrow> settle_result io" where
  "do_settle_cross_chain_trade W c a is_source_chain =
     call (SettleCrossChainTrade c a is_source_chain) (\<lambda>tr. cross_leg W tr c a is_source_chain)"

section \<open>\<open>APIHelper.settle_trades_if_any\<close>\<close>

text \<open>
  The order dictionary.  Order ids are integers, as \<open>register_order\<close> builds them;
  \<open>orderId\<close>, \<open>baseAsset\<close> and \<open>quoteAsset\<close> are read with \<open>order_dict[...]\<close> and may be
  missing.
\<close>

record order_dict =
  od_orderId :: "int option"
  od_baseAsset :: "string option"
  od_quoteAsset :: "string option"
  od_trades :: "trade list"

text \<open>
  A party is a positional list: account, side, order id, remaining quantity, one more
  field, source network, destination network, receive wallet.
\<close>

definition party_info :: "pyval list \<Rightarrow> pyexn + (pyval \<times> pyval \<times> pyval \<times> pyval \<times> pyval)" where
  "party_info p =
     (case p of
        [] \<Rightarrow> Inl (PyExn ''list index out of range'')
      | [a] \<Rightarrow> Inl (PyExn ''list index out of range'')
      | addr # side # rest \<Rightarrow>
          Inr (addr, side,
               (if length p > 5 then p ! 5 else PNone),
               (if length p > 6 then p ! 6 else PNone),
               (if length p > 7 then p ! 7 else addr)))"

text \<open>
  \<open>str(v).lower() == s\<close> for \<open>s\<close> one of \<open>ask\<close>, \<open>bid\<close>: \<open>str\<close> of \<open>None\<close>, of a number
  or of a dictionary is neither.
\<close>

fun str_lower_is :: "pyval \<Rightarrow> string \<Rightarrow> bool" where
  "str_lower_is (PStr v) s = (lower v = s)"
| "str_lower_is v s = False"

record roles =
  ask_addr :: pyval
  ask_from_network :: pyval
  ask_to_network :: pyval
  ask_recv :: pyval
  bid_addr :: pyval
  bid_from_network :: pyval
  bid_to_network :: pyval
  bid_recv :: pyval

definition normalize_roles :: "trade \<Rightarrow> pyexn + roles option" where
  "normalize_roles trade =
     bind_raise (party_info (party1 trade)) (\<lambda>(party1_addr, party1_side, party1_from_network,
                                                party1_to_network, party1_receive_wallet).
     bind_raise (party_info (party2 trade)) (\<lambda>(party2_addr, party2_side, party2_from_network,
                                                party2_to_network, party2_receive_wallet).
     let ask_is_p1 = (str_lower_is party1_side ''ask'' \<and> str_lower_is party2_side ''bid'');
         bid_is_p1 = (str_lower_is party1_side ''bid'' \<and> str_lower_is party2_side ''ask'')
     in if \<not> (ask_is_p1 \<or> bid_is_p1) then Inr None
        else if ask_is_p1
        then Inr (Some \<lparr>ask_addr = party1_addr, ask_from_network = party1_from_network,
                        ask_to_network = party1_to_network, ask_recv = party1_receive_wallet,
                        bid_addr = party2_addr, bid_from_network = party2_from_network,
                        bid_to_network = party2_to_network, bid_recv = party2_receive_wallet\<rparr>)
        else Inr (Some \<lparr>ask_addr = party2_addr, ask_from_network = party2_from_network,
                        ask_to_network = party2_to_network, ask_recv = party2_receive_wallet,
                        bid_addr = party1_addr, bid_from_network = party1_from_network,
                        bid_to_network = party1_to_network, bid_recv = party1_receive_wallet\<rparr>)))"

text \<open>\<open>SUPPORTED_NETWORKS.get(key)\<close>: a dictionary as key is unhashable and raises.\<close>

fun get_network :: "networks \<Rightarrow> pyval \<Rightarrow> pyexn + network_cfg option" where
  "get_network SN (PStr k) = Inr (map_of SN k)"
| "get_network SN (PDict d) = Inl (PyExn ''unhashable type'')"
| "get_network SN v = Inr None"

fun network_key_of :: "pyval \<Rightarrow> string" where
  "network_key_of (PStr k) = k"
| "network_key_of v = []"

definition contract_of :: "config \<Rightarrow> network_cfg \<Rightarrow> string option" where
  "contract_of cfg n =
     (case contract_address n of None \<Rightarrow> TRADE_SETTLEMENT_CONTRACT_ADDRESS cfg | Some a \<Rightarrow> Some a)"

text \<open>The owner check; any exception inside it is ignored.\<close>

definition signer_not_owner :: "world \<Rightarrow> client \<Rightarrow> trade_settlement option io" where
  "signer_not_owner W client_source =
     io_try
       (io_bind (do_get_contract_owner W client_source) (\<lambda>owner_addr.
        io_bind (do_get_signer_address W client_source) (\<lambda>signer_addr.
        return (if owner_addr \<noteq> [] \<and> signer_addr \<noteq> [] \<and> lower owner_addr \<noteq> lower signer_addr
                then Some (Failed ''signer_not_owner'' (Some (OwnerSigner owner_addr signer_addr)))
                else None))))
       (\<lambda>e. return None)"

text \<open>The two pre-flight escrow checks, each inside its own \<open>try\<close>.\<close>

definition ask_escrow_check ::
  "world \<Rightarrow> client \<Rightarrow> pyval \<Rightarrow> string \<Rightarrow> trade \<Rightarrow> trade_settlement option io" where
  "ask_escrow_check W client_source ask base_token_src trade =
     io_try
       (io_bind (do_check_escrow_balance W client_source ask (PStr base_token_src) 18)
          (\<lambda>ask_base_check.
           let ask_base_avail = get_available ask_base_check;
               ask_base_needed = quantity trade
           in return (if ask_base_avail < ask_base_needed
                      then Some (Failed ''insufficient_ask_base_escrow''
                                   (Some (RequiredAvailable ask_base_needed ask_base_avail)))
                      else None)))
       (\<lambda>e. return None)"

definition bid_escrow_check ::
  "world \<Rightarrow> client \<Rightarrow> pyval \<Rightarrow> string \<Rightarrow> trade \<Rightarrow> trade_settlement option io" where
  "bid_escrow_check W client_dest bid quote_token_dest trade =
     io_try
       (io_bind (do_check_escrow_balance W client_dest bid (PStr quote_token_dest) 18)
          (\<lambda>bid_quote_check.
           let bid_quote_avail = get_available bid_quote_check;
               bid_quote_needed = quantity trade * price trade
           in return (if bid_quote_avail < bid_quote_needed
                      then Some (Failed ''insufficient_bid_quote_escrow''
                                   (Some (RequiredAvailable bid_quote_needed bid_quote_avail)))
                      else None)))
       (\<lambda>e. return None)"

text \<open>\<open>_retry_get_nonce\<close>, called with the default three attempts.\<close>

fun retry_get_nonce :: "world \<Rightarrow> client \<Rightarrow> pyval \<Rightarrow> pyval \<Rightarrow> nat list \<Rightarrow> int io" where
  "retry_get_nonce W c u tok [] tr = (Inr 0, tr)"
| "retry_get_nonce W c u tok (a # rest) tr =
     (case do_get_user_nonce W c u tok tr of
        (Inr val, tr') \<Rightarrow> (Inr val, tr')
      | (Inl e, tr') \<Rightarrow>
          retry_get_nonce W c u tok rest (tr' @ [Sleep (1 / 2 * (of_nat a + 1))]))"

text \<open>The settlement id: the first 32 characters of the hash of \<open>base_order_id:timestamp:idx\<close>.\<close>

definition settlement_id_preimage :: "string \<Rightarrow> int \<Rightarrow> nat \<Rightarrow> string" where
  "settlement_id_preimage base_order_id ts idx =
     base_order_id @ '':'' @ str_int ts @ '':'' @ str_nat idx"

definition settlement_id :: "world \<Rightarrow> int \<Rightarrow> int \<Rightarrow> nat \<Rightarrow> string" where
  "settlement_id W orderId ts idx =
     take 32 (sha256_hexdigest W (settlement_id_preimage (strip (str_int orderId)) ts idx))"

text \<open>The same-chain pre-flight, again inside a \<open>try\<close> whose handler does nothing.\<close>

definition same_chain_preflight ::
  "world \<Rightarrow> client \<Rightarrow> roles \<Rightarrow> string \<Rightarrow> string \<Rightarrow> amount \<Rightarrow> amount \<Rightarrow> trade_settlement option io" where
  "same_chain_preflight W client_source r base_token_src quote_token_src price' quantity' =
     io_try
       (let base_needed = quantity'; quote_needed = quantity' * price' in
        io_bind (do_check_escrow_balance W client_source (ask_addr r) (PStr base_token_src) 18)
          (\<lambda>base_check.
        io_bind (do_check_escrow_balance W client_source (bid_addr r) (PStr quote_token_src) 18)
          (\<lambda>quote_check.
           let base_avail = get_available base_check;
               quote_avail = get_available quote_check
           in return (if base_avail < base_needed
                      then Some (Failed ''insufficient_escrow_base_same_chain''
                                   (Some (RequiredAvailable base_needed base_avail)))
                      else if quote_avail < quote_needed
                      then Some (Failed ''insufficient_escrow_quote_same_chain''
                                   (Some (RequiredAvailable quote_needed quote_avail)))
                      else None))))
       (\<lambda>e. return None)"

definition same_chain_atomic :: settle_result where
  "same_chain_atomic = \<lparr>success = True, transaction_hash = None, error = None,
                         skipped = True, reason = Some ''same_chain_atomic''\<rparr>"

definition source_failed :: settle_result where
  "source_failed = \<lparr>success = False, transaction_hash = None, error = None,
                     skipped = True, reason = Some ''source_failed''\<rparr>"

text \<open>The branch on \<open>same_chain\<close>: one atomic call, or the source leg and then the destination leg.\<close>

definition settle_legs ::
  "world \<Rightarrow> client \<Rightarrow> client \<Rightarrow> roles \<Rightarrow> string \<Rightarrow> string \<Rightarrow> string \<Rightarrow> string \<Rightarrow>
   amount \<Rightarrow> amount \<Rightarrow> int option \<Rightarrow> int option \<Rightarrow> int \<Rightarrow> int \<Rightarrow> int \<Rightarrow> trade_settlement io" where
  "settle_legs W client_source client_dest r order_id base_token_src quote_token_src quote_token_dest
     price' quantity' source_chain_id dest_chain_id timestamp' nonce1 nonce2 =
     (let args = (\<lambda>quote_asset.
            \<lparr>sa_order_id = order_id, sa_party1 = ask_addr r, sa_party2 = bid_addr r,
             sa_party1_receive_wallet = ask_recv r, sa_party2_receive_wallet = bid_recv r,
             sa_base_asset = base_token_src, sa_quote_asset = quote_asset,
             sa_price = price', sa_quantity = quantity',
             sa_party1_side = ''ask'', sa_party2_side = ''bid'',
             sa_source_chain_id = source_chain_id, sa_destination_chain_id = dest_chain_id,
             sa_timestamp = timestamp', sa_nonce1 = nonce1, sa_nonce2 = nonce2\<rparr>)
      in if source_chain_id = dest_chain_id
         then io_bind (same_chain_preflight W client_source r base_token_src quote_token_src
                         price' quantity') (\<lambda>short.
              case short of
                Some failed \<Rightarrow> return failed
              | None \<Rightarrow>
                  io_bind (do_settle_same_chain_trade W client_source (args quote_token_src))
                    (\<lambda>result_same.
                     return (Legs (success result_same \<and> success same_chain_atomic)
                               result_same same_chain_atomic (Some order_id))))
         else io_bind (do_settle_cross_chain_trade W client_source (args quote_token_dest) True)
                (\<lambda>result_source.
                 if \<not> success result_source
                 then return (Legs False result_source source_failed None)
                 else io_bind (do_settle_cross_chain_trade W client_dest (args quote_token_dest) False)
                        (\<lambda>result_dest.
                         return (Legs (success result_source \<and> success result_dest)
                                   result_source result_dest (Some order_id)))))"

text \<open>The body of the loop over \<open>enumerate(order_dict["trades"])\<close>, for one trade.\<close>

definition settle_trade :: "world \<Rightarrow> config \<Rightarrow> order_dict \<Rightarrow> nat \<Rightarrow> trade \<Rightarrow> trade_settlement io" where
  "settle_trade W cfg order_dict idx trade =
     io_bind (lift (normalize_roles trade)) (\<lambda>norm.
     case norm of
       None \<Rightarrow> return (Failed ''invalid_sides'' None)
     | Some r \<Rightarrow>
     io_bind (lift (get_network (SUPPORTED_NETWORKS cfg) (ask_from_network r))) (\<lambda>source_network_cfg.
     io_bind (lift (get_network (SUPPORTED_NETWORKS cfg) (bid_from_network r))) (\<lambda>dest_network_cfg.
     case source_network_cfg of
       None \<Rightarrow> return (Failed ''Network configuration not found'' None)
     | Some src \<Rightarrow>
     case dest_network_cfg of
       None \<Rightarrow> return (Failed ''Network configuration not found'' None)
     | Some dst \<Rightarrow>
         io_bind (new_client W (rpc src, contract_of cfg src)) (\<lambda>client_source.
         io_bind (new_client W (rpc dst, contract_of cfg dst)) (\<lambda>client_dest.
         io_bind (signer_not_owner W client_source) (\<lambda>mismatch.
         case mismatch of
           Some failed \<Rightarrow> return failed
         | None \<Rightarrow>
         io_bind (lift (subscript ''baseAsset'' (od_baseAsset order_dict))) (\<lambda>baseAsset.
         io_bind (lift (subscript ''quoteAsset'' (od_quoteAsset order_dict))) (\<lambda>quoteAsset.
         let base_token_src = get_token_address baseAsset (network_key_of (ask_from_network r))
                                (SUPPORTED_NETWORKS cfg) (TOKEN_ADDRESSES cfg);
             quote_token_src = get_token_address quoteAsset (network_key_of (ask_from_network r))
                                (SUPPORTED_NETWORKS cfg) (TOKEN_ADDRESSES cfg);
             quote_token_dest = get_token_address quoteAsset (network_key_of (bid_from_network r))
                                (SUPPORTED_NETWORKS cfg) (TOKEN_ADDRESSES cfg)
         in
         io_bind (ask_escrow_check W client_source (ask_addr r) base_token_src trade) (\<lambda>ask_short.
         case ask_short of
           Some failed \<Rightarrow> return failed
         | None \<Rightarrow>
         io_bind (bid_escrow_check W client_dest (bid_addr r) quote_token_dest trade) (\<lambda>bid_short.
         case bid_short of
           Some failed \<Rightarrow> return failed
         | None \<Rightarrow>
         io_bind (retry_get_nonce W client_source (ask_addr r) (PStr base_token_src) [0, 1, 2])
           (\<lambda>nonce1.
         io_bind (retry_get_nonce W client_dest (bid_addr r) (PStr quote_token_dest) [0, 1, 2])
           (\<lambda>nonce2.
         io_bind (lift (subscript ''orderId'' (od_orderId order_dict))) (\<lambda>orderId.
         settle_legs W client_source client_dest r
           (settlement_id W orderId (timestamp trade) idx)
           base_token_src quote_token_src quote_token_dest
           (price trade) (quantity trade) (chain_id src) (chain_id dst)
           (timestamp trade) nonce1 nonce2)))))))))))))"

fun settle_loop ::
  "world \<Rightarrow> config \<Rightarrow> order_dict \<Rightarrow> nat \<Rightarrow> trade list \<Rightarrow> (trade \<times> trade_settlement) list io" where
  "settle_loop W cfg order_dict idx [] tr = (Inr [], tr)"
| "settle_loop W cfg order_dict idx (trade # rest) tr =
     (case settle_trade W cfg order_dict idx trade tr of
        (Inl e, tr') \<Rightarrow> (Inl e, tr')
      | (Inr res, tr') \<Rightarrow>
          (case settle_loop W cfg order_dict (Suc idx) rest tr' of
             (Inl e, tr'') \<Rightarrow> (Inl e, tr'')
           | (Inr results, tr'') \<Rightarrow> (Inr ((trade, res) # results), tr'')))"

definition successful_count :: "(trade \<times> trade_settlement) list \<Rightarrow> nat" where
  "successful_count settlement_results =
     length (filter (\<lambda>r. settlement_success (snd r)) settlement_results)"

definition settle_trades_if_any :: "world \<Rightarrow> config \<Rightarrow> order_dict \<Rightarrow> settlement_info io" where
  "settle_trades_if_any W cfg order_dict =
     (if od_trades order_dict = [] then return (NotSettledReason ''No trades to settle'')
      else io_try
             (io_bind (settle_loop W cfg order_dict 0 (od_trades order_dict))
                (\<lambda>settlement_results.
                 return (Settled settlement_results (length (od_trades order_dict))
                           (successful_count settlement_results))))
             (\<lambda>e. return (NotSettledError (str_exn e))))"

section \<open>\<open>APIHelper.settle_trades_if_any_same\<close>\<close>

fun truthy :: "pyval \<Rightarrow> bool" where
  "truthy PNone = False"
| "truthy (PStr v) = (v \<noteq> [])"
| "truthy (PInt i) = (i \<noteq> 0)"
| "truthy (PNum r) = (r \<noteq> 0)"
| "truthy (PDict d) = (d \<noteq> [])"

text \<open>\<open>(t0.get("party1") or [None]*8)[5]\<close>.\<close>

definition from_network_of :: "pyval list \<Rightarrow> pyexn + pyval" where
  "from_network_of p =
     (if p = [] then Inr PNone
      else if length p > 5 then Inr (p ! 5)
      else Inl (PyExn ''list index out of range''))"

text \<open>\<open>SUPPORTED_NETWORKS.get(key, {}).get("chain_id")\<close>.\<close>

definition chain_id_of :: "networks \<Rightarrow> pyval \<Rightarrow> pyexn + int option" where
  "chain_id_of SN k =
     bind_raise (get_network SN k) (\<lambda>n. Inr (case n of None \<Rightarrow> None | Some c \<Rightarrow> chain_id c))"

definition settle_trades_if_any_same :: "world \<Rightarrow> config \<Rightarrow> order_dict \<Rightarrow> settlement_info io" where
  "settle_trades_if_any_same W cfg order_dict =
     io_try
       (case od_trades order_dict of
          [] \<Rightarrow> return (NotSettledReason ''No trades to settle'')
        | t0 # rest \<Rightarrow>
            io_bind (lift (from_network_of (party1 t0))) (\<lambda>p1_from.
            io_bind (lift (from_network_of (party2 t0))) (\<lambda>p2_from.
            if \<not> truthy p1_from \<or> \<not> truthy p2_from
            then return (NotSettledError ''missing_networks'')
            else io_bind (lift (chain_id_of (SUPPORTED_NETWORKS cfg) p1_from)) (\<lambda>c1.
                 io_bind (lift (chain_id_of (SUPPORTED_NETWORKS cfg) p2_from)) (\<lambda>c2.
                 if c1 \<noteq> c2 then return (NotSettledError ''not_same_chain'')
                 else settle_trades_if_any W cfg order_dict)))))
       (\<lambda>e. return (NotSettledError (str_exn e)))"

section \<open>\<open>APIService.register_order\<close>\<close>







text \<open>
  Step 3: the settlement runs in a worker thread under \<open>asyncio.wait_for\<close>.  The thread is
  not stopped by the timeout, so its calls are in the trace either way.
\<close>

definition run_settlement :: "world \<Rightarrow> config \<Rightarrow> order_dict \<Rightarrow> settlement_info io" where
  "run_settlement W cfg order_dict =
     io_try
       (io_bind (lift (SETTLEMENT_SYNC_TIMEOUT cfg)) (\<lambda>timeout_s.
        io_bind (settle_trades_if_any_same W cfg order_dict) (\<lambda>info.
        (\<lambda>tr. if timed_out W tr timeout_s then (Inr (NotSettledReason ''timeout''), tr)
              else (Inr info, tr)))))
       (\<lambda>e. return (NotSettledError (str_exn e)))"


fun settlement_results :: "settlement_info \<Rightarrow> (trade \<times> trade_settlement) list" where
  "settlement_results (Settled results total_trades successful) = results"
| "settlement_results info = []"








section \<open>\<open>APIService.register_order_cross\<close>\<close>

datatype cross_response =
    CrossOK int int int "order option" "(receipt \<times> receipt) list"
  | CrossError string

text \<open>\<open>supported_networks[chain]\<close> and \<open>supported_networks[chain]["tokens"][symbol]\<close>.\<close>

fun network_at :: "networks \<Rightarrow> pyval \<Rightarrow> pyexn + network_cfg" where
  "network_at SN (PStr k) = subscript k (map_of SN k)"
| "network_at SN (PDict d) = Inl (PyExn ''unhashable type'')"
| "network_at SN v = Inl (PyExn ''KeyError'')"

definition token_at :: "networks \<Rightarrow> pyval \<Rightarrow> string \<Rightarrow> pyexn + string" where
  "token_at SN chain symbol =
     bind_raise (network_at SN chain) (\<lambda>n. subscript symbol (map_of (tokens n) symbol))"

text \<open>\<open>party_order["baseAsset"]\<close>: the eighth entry of the party must be a dictionary.\<close>

fun order_field :: "pyval \<Rightarrow> string \<Rightarrow> pyexn + string" where
  "order_field (PDict d) k = subscript k (map_of d k)"
| "order_field v k = Inl (PyExn ''not subscriptable'')"

record cross_party =
  cp_account :: pyval
  cp_side :: pyval
  cp_source_chain :: pyval
  cp_dest_chain :: pyval
  cp_receive_wallet :: pyval
  cp_base_asset :: string
  cp_quote_asset :: string

text \<open>
  The fields of one party and its two token addresses.  For the first party on the ask
  side the source looks the tokens up under \<open>["tokens"]["tokens"]\<close>, which raises whatever
  the configuration holds.
\<close>

definition cross_party_of :: "networks \<Rightarrow> bool \<Rightarrow> pyval list \<Rightarrow> pyexn + cross_party" where
  "cross_party_of SN first p =
     (if length p < 8 then Inl (PyExn ''list index out of range'')
      else
        let party_order = p ! 7; party_account = p ! 0; party_side = p ! 1;
            party_source_chain = p ! 4; party_dest_chain = p ! 5; party_receive_wallet = p ! 6
        in bind_raise
             (if party_side = PStr ''bid''
              then bind_raise (order_field party_order ''baseAsset'') (\<lambda>b.
                   bind_raise (token_at SN party_dest_chain b) (\<lambda>base.
                   bind_raise (order_field party_order ''quoteAsset'') (\<lambda>q.
                   bind_raise (token_at SN party_source_chain q) (\<lambda>quote.
                   Inr (base, quote)))))
              else if first then Inl (PyExn ''tokens'')
              else bind_raise (order_field party_order ''baseAsset'') (\<lambda>b.
                   bind_raise (token_at SN party_source_chain b) (\<lambda>base.
                   bind_raise (order_field party_order ''quoteAsset'') (\<lambda>q.
                   bind_raise (token_at SN party_dest_chain q) (\<lambda>quote.
                   Inr (base, quote))))))
             (\<lambda>(base, quote).
               Inr \<lparr>cp_account = party_account, cp_side = party_side,
                    cp_source_chain = party_source_chain, cp_dest_chain = party_dest_chain,
                    cp_receive_wallet = party_receive_wallet,
                    cp_base_asset = base, cp_quote_asset = quote\<rparr>))"

text \<open>Who is \<open>party1\<close> (ask, source) and who is \<open>party2\<close> (bid, destination) of the struct.\<close>

definition order_parties ::
  "cross_party \<Rightarrow> cross_party \<Rightarrow> pyexn + (cross_party \<times> cross_party \<times> pyval \<times> pyval \<times> string \<times> string)" where
  "order_parties p1 p2 =
     (if cp_side p1 = PStr ''ask'' \<and> cp_side p2 = PStr ''bid''
      then Inr (p1, p2, cp_source_chain p1, cp_source_chain p2, cp_base_asset p1, cp_quote_asset p2)
      else if cp_side p1 = PStr ''bid'' \<and> cp_side p2 = PStr ''ask''
      then Inr (p2, p1, cp_source_chain p2, cp_source_chain p1, cp_base_asset p2, cp_quote_asset p1)
      else Inl (PyExn ''Invalid trade sides - both parties on same side''))"

definition chain_id_at :: "networks \<Rightarrow> pyval \<Rightarrow> pyexn + int" where
  "chain_id_at SN chain =
     bind_raise (network_at SN chain) (\<lambda>n. subscript ''chain_id'' (chain_id n))"

text \<open>One round of the loop over the trades: build the struct, settle on both chains.\<close>

definition cross_settle_trade ::
  "world \<Rightarrow> networks \<Rightarrow> amount \<Rightarrow> trade \<Rightarrow> (receipt \<times> receipt) io" where
  "cross_settle_trade W SN price' trade =
     (let base_qty = quantity trade in
      io_bind (lift (cross_party_of SN True (party1 trade))) (\<lambda>p1.
      io_bind (lift (cross_party_of SN False (party2 trade))) (\<lambda>p2.
      io_bind (lift (order_parties p1 p2))
        (\<lambda>(source_party, dest_party, source_chain, dest_chain, cross_base_asset, cross_quote_asset).
      io_bind (call TokenHex (\<lambda>tr. Inr (token_hex W tr))) (\<lambda>trade_id_hash.
      io_bind (lift (to_checksum W (cp_account source_party))) (\<lambda>a1.
      io_bind (lift (to_checksum W (cp_account dest_party))) (\<lambda>a2.
      io_bind (lift (to_checksum W (cp_receive_wallet source_party))) (\<lambda>r1.
      io_bind (lift (to_checksum W (cp_receive_wallet dest_party))) (\<lambda>r2.
      io_bind (lift (to_checksum W (PStr cross_base_asset))) (\<lambda>base.
      io_bind (lift (to_checksum W (PStr cross_quote_asset))) (\<lambda>quote.
      io_bind (lift (chain_id_at SN source_chain)) (\<lambda>sid.
      io_bind (lift (chain_id_at SN dest_chain)) (\<lambda>did.
      io_bind (call Time (\<lambda>tr. Inr (time_now W tr))) (\<lambda>now.
      let trade_data =
            \<lparr>td_orderId = HexBytes trade_id_hash, td_party1 = a1, td_party2 = a2,
             td_party1ReceiveWallet = r1, td_party2ReceiveWallet = r2,
             td_baseAsset = base, td_quoteAsset = quote,
             td_price = trunc (price' * 10 ^ 18), td_quantity = trunc (base_qty * 10 ^ 18),
             td_party1Side = ''ask'', td_party2Side = ''bid'',
             td_sourceChainId = Some sid, td_destinationChainId = Some did,
             td_timestamp = now, td_nonce1 = 0, td_nonce2 = 0\<rparr>
      in
      io_bind (lift (network_at SN source_chain)) (\<lambda>src.
      io_bind (lift (network_at SN dest_chain)) (\<lambda>dst.
      io_bind (call (NewCrossClient (rpc src)) (\<lambda>tr. cross_connect W tr (rpc src))) (\<lambda>u.
      io_bind (call (NewCrossClient (rpc dst)) (\<lambda>tr. cross_connect W tr (rpc dst))) (\<lambda>u.
      io_bind (call (CrossSettle (rpc src) (contract_address src) trade_data True)
                 (\<lambda>tr. cross_settle W tr (rpc src) (contract_address src) trade_data True))
        (\<lambda>result_source.
      io_bind (call (CrossSettle (rpc dst) (contract_address dst) trade_data False)
                 (\<lambda>tr. cross_settle W tr (rpc dst) (contract_address dst) trade_data False))
        (\<lambda>result_dest.
      return (result_source, result_dest)))))))))))))))))))))"

fun cross_settle_loop ::
  "world \<Rightarrow> networks \<Rightarrow> amount \<Rightarrow> trade list \<Rightarrow> (receipt \<times> receipt) list io" where
  "cross_settle_loop W SN price' [] tr = (Inr [], tr)"
| "cross_settle_loop W SN price' (trade # rest) tr =
     (case cross_settle_trade W SN price' trade tr of
        (Inl e, tr') \<Rightarrow> (Inl e, tr')
      | (Inr res, tr') \<Rightarrow>
          (case cross_settle_loop W SN price' rest tr' of
             (Inl e, tr'') \<Rightarrow> (Inl e, tr'')
           | (Inr results, tr'') \<Rightarrow> (Inr (res # results), tr'')))"

text \<open>
  \<open>order_books\<close> is the list of symbols that have a book when the request arrives.  The
  source prints the asks of the book \<open>HBAR_USDT\<close> after matching, which raises when there
  is no such book.
\<close>

definition register_order_cross ::
  "world \<Rightarrow> networks \<Rightarrow> string list \<Rightarrow> payload \<Rightarrow> event list \<Rightarrow> cross_response \<times> event list" where
  "register_order_cross W supported_networks order_books body tr =
     (case
        (io_bind (lift (subscript ''from_network'' (p_from_network body))) (\<lambda>from_network.
         io_bind (lift (network_at supported_networks (PStr from_network))) (\<lambda>net.
         io_bind (lift (subscript ''side'' (p_side body))) (\<lambda>side.
         io_bind (lift (if side = ''ask''
                        then bind_raise (subscript ''baseAsset'' (p_baseAsset body))
                               (\<lambda>b. token_at supported_networks (PStr from_network) b)
                        else bind_raise (subscript ''quoteAsset'' (p_quoteAsset body))
                               (\<lambda>q. token_at supported_networks (PStr from_network) q)))
           (\<lambda>token_address.
         io_bind (call (NewCrossClient (rpc net)) (\<lambda>tr. cross_connect W tr (rpc net))) (\<lambda>u.
         io_bind (lift (subscript ''account'' (p_account body))) (\<lambda>acct.
         io_bind (lift (subscript ''to_network'' (p_to_network body))) (\<lambda>to_network.
         io_bind (call (CrossCheckEscrowBalance (rpc net) (contract_address net) acct token_address)
                    (\<lambda>tr. case cross_checkEscrowBalance W tr (rpc net) (contract_address net)
                                   acct token_address of
                            Inl e \<Rightarrow> Inl (PyExn ''cannot unpack non-iterable NoneType object'')
                          | Inr t \<Rightarrow> Inr t))
           (\<lambda>(tot, avail, lck).
         io_bind (lift (subscript ''quantity'' (p_quantity body))) (\<lambda>qty.
         io_bind (lift (subscript ''price'' (p_price body))) (\<lambda>price'.
         let amount = (if side = ''ask'' then qty else qty * price') in
         io_bind (lift (subscript ''baseAsset'' (p_baseAsset body))) (\<lambda>baseAsset.
         io_bind (lift (subscript ''quoteAsset'' (p_quoteAsset body))) (\<lambda>quoteAsset.
         let symbol = baseAsset @ ''_'' @ quoteAsset in
         if of_int avail < amount
         then lift (Inl (PyExn (''insufficient '' @ (if side = ''ask'' then ''base'' else ''quote'')
                                @ '' for trade'')))
         else
           let order' = \<lparr>o_type = (case p_type body of None \<Rightarrow> ''limit'' | Some t \<Rightarrow> t),
                         o_trade_id = acct, o_from_network = from_network,
                         o_to_network = to_network, o_receive_wallet = p_receiveWallet body,
                         o_account = acct, o_price = price', o_quantity = qty, o_side = side,
                         o_baseAsset = baseAsset, o_quoteAsset = quoteAsset,
                         o_order_id = None, o_timestamp = None\<rparr>
           in
           io_bind (call (ProcessOrder symbol) (\<lambda>tr. process_order_call W tr symbol order'))
             (\<lambda>process_result.
           if symbol \<noteq> ''HBAR_USDT'' \<and> ''HBAR_USDT'' \<notin> set order_books
           then lift (Inl (PyExn ''HBAR_USDT''))
           else if \<not> pr_success process_result
           then lift (Inl (PyExn ''not enough values to unpack''))
           else
             io_bind (cross_settle_loop W supported_networks price' (pr_trades process_result))
               (\<lambda>result.
             return (CrossOK avail tot lck (pr_order process_result) result))))))))))))))))
        tr
      of (Inl e, tr') \<Rightarrow> (CrossError (str_exn e), tr')
       | (Inr resp, tr') \<Rightarrow> (resp, tr'))"

section \<open>Properties of the read operations\<close>

lemma check_escrow_balance_returns:
  "\<exists>b. check_escrow_balance w u t d = Inr b"
  by (auto simp: check_escrow_balance_def try_except_def bind_raise_def split: sum.splits prod.splits)

lemma get_token_decimals_returns:
  "\<exists>n. get_token_decimals w t = Inr n"
  by (auto simp: get_token_decimals_def try_except_def bind_raise_def split: sum.splits)

lemma get_user_nonce_returns:
  "\<exists>n. get_user_nonce w u t = Inr n"
  by (auto simp: get_user_nonce_def try_except_def bind_raise_def split: sum.splits)

lemma check_escrow_balance_on_failure:
  "read_balance_raw w u t = Inl e \<Longrightarrow> check_escrow_balance w u t d = Inr (BalanceError (str_exn e))"
  by (auto simp: check_escrow_balance_def read_balance_raw_def try_except_def bind_raise_def
      split: sum.splits prod.splits)

lemma get_token_decimals_on_failure:
  "read_decimals_raw w t = Inl e \<Longrightarrow> get_token_decimals w t = Inr 18"
  by (auto simp: get_token_decimals_def read_decimals_raw_def try_except_def bind_raise_def
      split: sum.splits)

lemma get_token_decimals_on_success:
  "read_decimals_raw w t = Inr n \<Longrightarrow> get_token_decimals w t = Inr n"
  by (auto simp: get_token_decimals_def read_decimals_raw_def try_except_def bind_raise_def
      split: sum.splits)

lemma get_user_nonce_on_failure:
  "read_nonce_raw w u t = Inl e \<Longrightarrow> get_user_nonce w u t = Inr 0"
  by (auto simp: get_user_nonce_def read_nonce_raw_def try_except_def bind_raise_def
      split: sum.splits)

text \<open>
  C9. The read operations of \<open>SettlementClientSame\<close> never raise: whatever the web3
  layer does, \<open>check_escrow_balance\<close> returns a dictionary, which holds only the
  \<open>error\<close> key when the lookup failed, \<open>get_user_nonce\<close> returns an integer, 0 when the
  lookup failed, and \<open>get_token_decimals\<close> returns an integer, 18 when the lookup failed.
\<close>

theorem client_reads_total:
  "(\<exists>b. check_escrow_balance w u t d = Inr b
        \<and> ((\<exists>e. read_balance_raw w u t = Inl e) \<longrightarrow> has_error b)
        \<and> ((\<exists>r. read_balance_raw w u t = Inr r) \<longrightarrow> \<not> has_error b))
   \<and> (\<exists>n. get_user_nonce w u t = Inr n \<and> ((\<exists>e. read_nonce_raw w u t = Inl e) \<longrightarrow> n = 0))
   \<and> (\<exists>n. get_token_decimals w t = Inr n \<and> ((\<exists>e. read_decimals_raw w t = Inl e) \<longrightarrow> n = 18))"
proof (intro conjI)
  show "\<exists>b. check_escrow_balance w u t d = Inr b
        \<and> ((\<exists>e. read_balance_raw w u t = Inl e) \<longrightarrow> has_error b)
        \<and> ((\<exists>r. read_balance_raw w u t = Inr r) \<longrightarrow> \<not> has_error b)"
    by (auto simp: check_escrow_balance_def read_balance_raw_def try_except_def bind_raise_def
        split: sum.splits prod.splits)
  show "\<exists>n. get_user_nonce w u t = Inr n \<and> ((\<exists>e. read_nonce_raw w u t = Inl e) \<longrightarrow> n = 0)"
    by (auto simp: get_user_nonce_def read_nonce_raw_def try_except_def bind_raise_def
        split: sum.splits)
  show "\<exists>n. get_token_decimals w t = Inr n \<and> ((\<exists>e. read_decimals_raw w t = Inl e) \<longrightarrow> n = 18)"
    by (auto simp: get_token_decimals_def read_decimals_raw_def try_except_def bind_raise_def
        split: sum.splits)
qed

text \<open>
  The theorem at a client whose every web3 call raises: all three hypotheses hold there,
  and the three operations return the error dictionary, 0 and 18.
\<close>

definition failing_web3 :: web3 where
  "failing_web3 =
     \<lparr>to_checksum_address = (\<lambda>a. Inl (PyExn ''invalid address'')),
      checkEscrowBalance_call = (\<lambda>u t. Inl (PyExn ''429'')),
      decimals_call = (\<lambda>t. Inl (PyExn ''429'')),
      getUserNonce_call = (\<lambda>u t. Inl (PyExn ''429'')),
      owner_call = Inl (PyExn ''429''),
      account = None,
      preflight_call = (\<lambda>d. Inl (PyExn ''429'')),
      sign_transaction = (\<lambda>d. Inl (PyExn ''429'')),
      send_raw_transaction = (\<lambda>d. Inl (PyExn ''429'')),
      wait_for_transaction_receipt = (\<lambda>h. Inl (PyExn ''429''))\<rparr>"

theorem client_reads_total_witness:
  "(\<exists>e. read_balance_raw failing_web3 (PStr ''u'') (PStr ''t'') = Inl e)
   \<and> (\<exists>e. read_nonce_raw failing_web3 (PStr ''u'') (PStr ''t'') = Inl e)
   \<and> (\<exists>e. read_decimals_raw failing_web3 (PStr ''t'') = Inl e)
   \<and> (\<exists>b. check_escrow_balance failing_web3 (PStr ''u'') (PStr ''t'') 18 = Inr b \<and> has_error b)
   \<and> get_user_nonce failing_web3 (PStr ''u'') (PStr ''t'') = Inr 0
   \<and> get_token_decimals failing_web3 (PStr ''t'') = Inr 18"
proof -
  have b: "\<exists>e. read_balance_raw failing_web3 (PStr ''u'') (PStr ''t'') = Inl e"
    by (simp add: read_balance_raw_def failing_web3_def bind_raise_def)
  have n: "\<exists>e. read_nonce_raw failing_web3 (PStr ''u'') (PStr ''t'') = Inl e"
    by (simp add: read_nonce_raw_def failing_web3_def bind_raise_def)
  have d: "\<exists>e. read_decimals_raw failing_web3 (PStr ''t'') = Inl e"
    by (simp add: read_decimals_raw_def failing_web3_def bind_raise_def)
  from b n d client_reads_total [of failing_web3 "PStr ''u''" "PStr ''t''" 18]
  show ?thesis by blast
qed

section \<open>Running the orchestrator symbolically\<close>

text \<open>
  Since the read operations never raise, each of them has one answer at every point of
  the trace; the answers are named here, and every step of the orchestrator is rewritten
  into its result and the events it appends.
\<close>

definition balance_answer :: "world \<Rightarrow> event list \<Rightarrow> client \<Rightarrow> pyval \<Rightarrow> pyval \<Rightarrow> int \<Rightarrow> balance_info" where
  "balance_answer W tr c u t d =
     (case check_escrow_balance (web3_at W tr c) u t d of
        Inr b \<Rightarrow> b | Inl e \<Rightarrow> BalanceError (str_exn e))"

definition nonce_answer :: "world \<Rightarrow> event list \<Rightarrow> client \<Rightarrow> pyval \<Rightarrow> pyval \<Rightarrow> int" where
  "nonce_answer W tr c u t = (case get_user_nonce (web3_at W tr c) u t of Inr n \<Rightarrow> n | Inl e \<Rightarrow> 0)"

definition decimals_answer :: "world \<Rightarrow> event list \<Rightarrow> client \<Rightarrow> pyval \<Rightarrow> int" where
  "decimals_answer W tr c t = (case get_token_decimals (web3_at W tr c) t of Inr n \<Rightarrow> n | Inl e \<Rightarrow> 18)"

definition owner_answer :: "world \<Rightarrow> event list \<Rightarrow> client \<Rightarrow> string" where
  "owner_answer W tr c = (case get_contract_owner (web3_at W tr c) of Inr a \<Rightarrow> a | Inl e \<Rightarrow> [])"

definition signer_answer :: "world \<Rightarrow> event list \<Rightarrow> client \<Rightarrow> string" where
  "signer_answer W tr c = (case account (web3_at W tr c) of None \<Rightarrow> [] | Some a \<Rightarrow> a)"

lemma check_escrow_balance_answer:
  "check_escrow_balance (web3_at W tr c) u t d = Inr (balance_answer W tr c u t d)"
  using check_escrow_balance_returns [of "web3_at W tr c" u t d]
  by (auto simp: balance_answer_def)

lemma get_user_nonce_answer:
  "get_user_nonce (web3_at W tr c) u t = Inr (nonce_answer W tr c u t)"
  using get_user_nonce_returns [of "web3_at W tr c" u t]
  by (auto simp: nonce_answer_def)

lemma get_token_decimals_answer:
  "get_token_decimals (web3_at W tr c) t = Inr (decimals_answer W tr c t)"
  using get_token_decimals_returns [of "web3_at W tr c" t]
  by (auto simp: decimals_answer_def)

lemma get_contract_owner_answer:
  "get_contract_owner (web3_at W tr c) = Inr (owner_answer W tr c)"
  by (auto simp: owner_answer_def get_contract_owner_def try_except_def split: sum.splits)

lemma do_check_escrow_balance_run:
  "do_check_escrow_balance W c u t d tr =
     (Inr (balance_answer W tr c u t d), tr @ [CheckEscrowBalance c u t d])"
  by (simp add: do_check_escrow_balance_def call_def check_escrow_balance_answer)

lemma do_get_user_nonce_run:
  "do_get_user_nonce W c u t tr = (Inr (nonce_answer W tr c u t), tr @ [GetUserNonce c u t])"
  by (simp add: do_get_user_nonce_def call_def get_user_nonce_answer)

lemma do_get_token_decimals_run:
  "do_get_token_decimals W c t tr = (Inr (decimals_answer W tr c t), tr @ [GetTokenDecimals c t])"
  by (simp add: do_get_token_decimals_def call_def get_token_decimals_answer)

lemma retry_get_nonce_run:
  "retry_get_nonce W c u t (a # rest) tr = (Inr (nonce_answer W tr c u t), tr @ [GetUserNonce c u t])"
  by (simp add: do_get_user_nonce_run)

lemma decimals_loop_run:
  "decimals_loop W c t dflt (a # rest) tr =
     (Inr (decimals_answer W tr c t), tr @ [GetTokenDecimals c t])"
  by (simp add: do_get_token_decimals_run)

lemma ask_escrow_check_run:
  "ask_escrow_check W c u base trade tr =
     (Inr (if get_available (balance_answer W tr c u (PStr base) 18) < quantity trade
           then Some (Failed ''insufficient_ask_base_escrow''
                  (Some (RequiredAvailable (quantity trade)
                     (get_available (balance_answer W tr c u (PStr base) 18)))))
           else None),
      tr @ [CheckEscrowBalance c u (PStr base) 18])"
  by (simp add: ask_escrow_check_def io_try_def io_bind_def return_def do_check_escrow_balance_run Let_def)

lemma bid_escrow_check_run:
  "bid_escrow_check W c u quote trade tr =
     (Inr (if get_available (balance_answer W tr c u (PStr quote) 18) < quantity trade * price trade
           then Some (Failed ''insufficient_bid_quote_escrow''
                  (Some (RequiredAvailable (quantity trade * price trade)
                     (get_available (balance_answer W tr c u (PStr quote) 18)))))
           else None),
      tr @ [CheckEscrowBalance c u (PStr quote) 18])"
  by (simp add: bid_escrow_check_def io_try_def io_bind_def return_def do_check_escrow_balance_run Let_def)

lemma signer_not_owner_run:
  "signer_not_owner W c tr =
     (Inr (if owner_answer W tr c \<noteq> [] \<and> signer_answer W (tr @ [GetContractOwner c]) c \<noteq> []
              \<and> lower (owner_answer W tr c) \<noteq> lower (signer_answer W (tr @ [GetContractOwner c]) c)
           then Some (Failed ''signer_not_owner''
                        (Some (OwnerSigner (owner_answer W tr c)
                                 (signer_answer W (tr @ [GetContractOwner c]) c))))
           else None),
      tr @ [GetContractOwner c])"
  by (simp add: signer_not_owner_def io_try_def io_bind_def return_def do_get_contract_owner_def
      do_get_signer_address_def get_signer_address_def call_def get_contract_owner_answer
      signer_answer_def)



section \<open>One trade: the shape of every run\<close>

definition leg_args ::
  "roles \<Rightarrow> string \<Rightarrow> string \<Rightarrow> string \<Rightarrow> amount \<Rightarrow> amount \<Rightarrow> int option \<Rightarrow> int option \<Rightarrow>
   int \<Rightarrow> int \<Rightarrow> int \<Rightarrow> settle_args" where
  "leg_args r order_id base_asset quote_asset price' quantity' source_chain_id dest_chain_id
     timestamp' nonce1 nonce2 =
     \<lparr>sa_order_id = order_id, sa_party1 = ask_addr r, sa_party2 = bid_addr r,
      sa_party1_receive_wallet = ask_recv r, sa_party2_receive_wallet = bid_recv r,
      sa_base_asset = base_asset, sa_quote_asset = quote_asset,
      sa_price = price', sa_quantity = quantity',
      sa_party1_side = ''ask'', sa_party2_side = ''bid'',
      sa_source_chain_id = source_chain_id, sa_destination_chain_id = dest_chain_id,
      sa_timestamp = timestamp', sa_nonce1 = nonce1, sa_nonce2 = nonce2\<rparr>"

lemma settle_legs_cross:
  assumes "sid \<noteq> did"
  shows "settle_legs W cs cd r oid base qsrc qdst p q sid did ts n1 n2 tr =
     (let a = leg_args r oid base qdst p q sid did ts n1 n2;
          tr1 = tr @ [SettleCrossChainTrade cs a True]
      in case cross_leg W tr cs a True of
           Inl e \<Rightarrow> (Inl e, tr1)
         | Inr result_source \<Rightarrow>
             if \<not> success result_source
             then (Inr (Legs False result_source source_failed None), tr1)
             else (case cross_leg W tr1 cd a False of
                     Inl e \<Rightarrow> (Inl e, tr1 @ [SettleCrossChainTrade cd a False])
                   | Inr result_dest \<Rightarrow>
                       (Inr (Legs (success result_dest) result_source result_dest (Some oid)),
                        tr1 @ [SettleCrossChainTrade cd a False])))"
  using assms
  by (auto simp: settle_legs_def leg_args_def Let_def io_bind_def return_def
      do_settle_cross_chain_trade_def call_def split: sum.splits)

lemma same_chain_preflight_run:
  "same_chain_preflight W cs r base qsrc p q tr =
     (let tr1 = tr @ [CheckEscrowBalance cs (ask_addr r) (PStr base) 18];
          base_avail = get_available (balance_answer W tr cs (ask_addr r) (PStr base) 18);
          quote_avail = get_available (balance_answer W tr1 cs (bid_addr r) (PStr qsrc) 18)
      in (Inr (if base_avail < q
               then Some (Failed ''insufficient_escrow_base_same_chain''
                            (Some (RequiredAvailable q base_avail)))
               else if quote_avail < q * p
               then Some (Failed ''insufficient_escrow_quote_same_chain''
                            (Some (RequiredAvailable (q * p) quote_avail)))
               else None),
          tr1 @ [CheckEscrowBalance cs (bid_addr r) (PStr qsrc) 18]))"
  by (simp add: same_chain_preflight_def io_try_def io_bind_def return_def
      do_check_escrow_balance_run Let_def)

lemma settle_legs_same:
  "settle_legs W cs cd r oid base qsrc qdst p q sid sid ts n1 n2 tr =
     (let a = leg_args r oid base qsrc p q sid sid ts n1 n2;
          tr1 = tr @ [CheckEscrowBalance cs (ask_addr r) (PStr base) 18];
          tr2 = tr1 @ [CheckEscrowBalance cs (bid_addr r) (PStr qsrc) 18];
          base_avail = get_available (balance_answer W tr cs (ask_addr r) (PStr base) 18);
          quote_avail = get_available (balance_answer W tr1 cs (bid_addr r) (PStr qsrc) 18)
      in if base_avail < q
         then (Inr (Failed ''insufficient_escrow_base_same_chain''
                      (Some (RequiredAvailable q base_avail))), tr2)
         else if quote_avail < q * p
         then (Inr (Failed ''insufficient_escrow_quote_same_chain''
                      (Some (RequiredAvailable (q * p) quote_avail))), tr2)
         else (case settle_same_chain_trade (web3_at W tr2 cs) a of
                 Inl e \<Rightarrow> (Inl e, tr2 @ [SettleSameChainTrade cs a])
               | Inr result_same \<Rightarrow>
                   (Inr (Legs (success result_same) result_same same_chain_atomic (Some oid)),
                    tr2 @ [SettleSameChainTrade cs a])))"
  by (auto simp: settle_legs_def leg_args_def Let_def io_bind_def return_def
      same_chain_preflight_run do_settle_same_chain_trade_def call_def same_chain_atomic_def
      split: sum.splits)


fun is_submission :: "event \<Rightarrow> bool" where
  "is_submission (SettleSameChainTrade c a) = True"
| "is_submission (SettleCrossChainTrade c a s) = True"
| "is_submission e = False"

definition preflight_entry ::
  "world \<Rightarrow> config \<Rightarrow> order_dict \<Rightarrow> trade \<Rightarrow> event list \<Rightarrow>
   (roles \<times> network_cfg \<times> network_cfg \<times> string \<times> string \<times> string) option" where
  "preflight_entry W cfg od trade tr =
     (case normalize_roles trade of
        Inr (Some r) \<Rightarrow>
          (case (get_network (SUPPORTED_NETWORKS cfg) (ask_from_network r),
                 get_network (SUPPORTED_NETWORKS cfg) (bid_from_network r)) of
             (Inr (Some src), Inr (Some dst)) \<Rightarrow>
               (let cs = (rpc src, contract_of cfg src); cd = (rpc dst, contract_of cfg dst)
                in if connect W tr cs = Inr () \<and> connect W (tr @ [NewClient cs]) cd = Inr ()
                      \<and> fst (signer_not_owner W cs (tr @ [NewClient cs, NewClient cd])) = Inr None
                   then (case (od_baseAsset od, od_quoteAsset od) of
                           (Some b, Some q) \<Rightarrow>
                             Some (r, src, dst,
                                   get_token_address b (network_key_of (ask_from_network r))
                                     (SUPPORTED_NETWORKS cfg) (TOKEN_ADDRESSES cfg),
                                   get_token_address q (network_key_of (ask_from_network r))
                                     (SUPPORTED_NETWORKS cfg) (TOKEN_ADDRESSES cfg),
                                   get_token_address q (network_key_of (bid_from_network r))
                                     (SUPPORTED_NETWORKS cfg) (TOKEN_ADDRESSES cfg))
                         | other \<Rightarrow> None)
                   else None)
           | other \<Rightarrow> None)
      | other \<Rightarrow> None)"

lemma preflight_entry_SomeD:
  assumes "preflight_entry W cfg od trade tr = Some (r, src, dst, base, qsrc, qdst)"
  shows "normalize_roles trade = Inr (Some r)"
    and "get_network (SUPPORTED_NETWORKS cfg) (ask_from_network r) = Inr (Some src)"
    and "get_network (SUPPORTED_NETWORKS cfg) (bid_from_network r) = Inr (Some dst)"
    and "connect W tr (rpc src, contract_of cfg src) = Inr ()"
    and "connect W (tr @ [NewClient (rpc src, contract_of cfg src)]) (rpc dst, contract_of cfg dst) = Inr ()"
    and "fst (signer_not_owner W (rpc src, contract_of cfg src)
               (tr @ [NewClient (rpc src, contract_of cfg src),
                      NewClient (rpc dst, contract_of cfg dst)])) = Inr None"
    and "\<exists>b. od_baseAsset od = Some b
           \<and> base = get_token_address b (network_key_of (ask_from_network r))
                      (SUPPORTED_NETWORKS cfg) (TOKEN_ADDRESSES cfg)"
    and "\<exists>q. od_quoteAsset od = Some q
           \<and> qsrc = get_token_address q (network_key_of (ask_from_network r))
                      (SUPPORTED_NETWORKS cfg) (TOKEN_ADDRESSES cfg)
           \<and> qdst = get_token_address q (network_key_of (bid_from_network r))
                      (SUPPORTED_NETWORKS cfg) (TOKEN_ADDRESSES cfg)"
  using assms
  by (simp_all add: preflight_entry_def Let_def split: sum.splits option.splits if_splits)

lemma settle_trade_preflight:
  assumes "preflight_entry W cfg od trade tr = Some (r, src, dst, base, qsrc, qdst)"
  shows "settle_trade W cfg od idx trade tr =
     (let cs = (rpc src, contract_of cfg src); cd = (rpc dst, contract_of cfg dst);
          tr3 = tr @ [NewClient cs, NewClient cd, GetContractOwner cs];
          tr4 = tr3 @ [CheckEscrowBalance cs (ask_addr r) (PStr base) 18];
          tr5 = tr4 @ [CheckEscrowBalance cd (bid_addr r) (PStr qdst) 18];
          tr6 = tr5 @ [GetUserNonce cs (ask_addr r) (PStr base)];
          tr7 = tr6 @ [GetUserNonce cd (bid_addr r) (PStr qdst)];
          ask_avail = get_available (balance_answer W tr3 cs (ask_addr r) (PStr base) 18);
          bid_avail = get_available (balance_answer W tr4 cd (bid_addr r) (PStr qdst) 18)
      in if ask_avail < quantity trade
         then (Inr (Failed ''insufficient_ask_base_escrow''
                      (Some (RequiredAvailable (quantity trade) ask_avail))), tr4)
         else if bid_avail < quantity trade * price trade
         then (Inr (Failed ''insufficient_bid_quote_escrow''
                      (Some (RequiredAvailable (quantity trade * price trade) bid_avail))), tr5)
         else (case od_orderId od of
                 None \<Rightarrow> (Inl (PyExn ''orderId''), tr7)
               | Some orderId \<Rightarrow>
                   settle_legs W cs cd r (settlement_id W orderId (timestamp trade) idx)
                     base qsrc qdst (price trade) (quantity trade) (chain_id src) (chain_id dst)
                     (timestamp trade)
                     (nonce_answer W tr5 cs (ask_addr r) (PStr base))
                     (nonce_answer W tr6 cd (bid_addr r) (PStr qdst)) tr7))"
proof -
  note f = preflight_entry_SomeD [OF assms]
  from f(7) obtain b where b: "od_baseAsset od = Some b"
    "base = get_token_address b (network_key_of (ask_from_network r))
              (SUPPORTED_NETWORKS cfg) (TOKEN_ADDRESSES cfg)" by blast
  from f(8) obtain q where q: "od_quoteAsset od = Some q"
    "qsrc = get_token_address q (network_key_of (ask_from_network r))
              (SUPPORTED_NETWORKS cfg) (TOKEN_ADDRESSES cfg)"
    "qdst = get_token_address q (network_key_of (bid_from_network r))
              (SUPPORTED_NETWORKS cfg) (TOKEN_ADDRESSES cfg)" by blast
  have so: "signer_not_owner W (rpc src, contract_of cfg src)
               (tr @ [NewClient (rpc src, contract_of cfg src),
                      NewClient (rpc dst, contract_of cfg dst)])
             = (Inr None, tr @ [NewClient (rpc src, contract_of cfg src),
                      NewClient (rpc dst, contract_of cfg dst),
                      GetContractOwner (rpc src, contract_of cfg src)])"
    using f(6) by (simp add: signer_not_owner_run split: if_splits)
  show ?thesis
    using f(1-5) so
    unfolding settle_trade_def b(2) q(2) q(3)
    by (simp add: b(1) q(1)
        new_client_def io_bind_def lift_def return_def call_def subscript_def Let_def
        ask_escrow_check_run bid_escrow_check_run retry_get_nonce_run
        del: retry_get_nonce.simps split: option.splits)
qed


lemmas settle_trade_unfold =
  settle_trade_def io_bind_def lift_def return_def new_client_def call_def subscript_def
  signer_not_owner_run Let_def

lemma settle_trade_no_entry:
  assumes none: "preflight_entry W cfg od trade tr = None"
  shows "\<exists>new. snd (settle_trade W cfg od idx trade tr) = tr @ new
           \<and> (\<forall>e \<in> set new. \<exists>c. e = NewClient c \<or> e = GetContractOwner c)"
proof (cases "normalize_roles trade")
  case (Inl e)
  then show ?thesis by (simp add: settle_trade_unfold)
next
  case (Inr x)
  show ?thesis
  proof (cases x)
    case None
    with Inr show ?thesis by (simp add: settle_trade_unfold)
  next
    case (Some r)
    with Inr have nr: "normalize_roles trade = Inr (Some r)" by simp
    show ?thesis
    proof (cases "get_network (SUPPORTED_NETWORKS cfg) (ask_from_network r)")
      case (Inl e)
      with nr show ?thesis by (simp add: settle_trade_unfold)
    next
      case a: (Inr sn)
      show ?thesis
      proof (cases "get_network (SUPPORTED_NETWORKS cfg) (bid_from_network r)")
        case (Inl e)
        with nr a show ?thesis by (simp add: settle_trade_unfold)
      next
        case b: (Inr dn)
        show ?thesis
        proof (cases sn)
          case None
          with nr a b show ?thesis by (simp add: settle_trade_unfold)
        next
          case (Some src)
          note a' = a [unfolded Some]
          show ?thesis
          proof (cases dn)
            case None
            with nr a' b show ?thesis by (simp add: settle_trade_unfold)
          next
            case (Some dst)
            note b' = b [unfolded Some]
            let ?cs = "(rpc src, contract_of cfg src)"
            let ?cd = "(rpc dst, contract_of cfg dst)"
            show ?thesis
            proof (cases "connect W tr ?cs")
              case (Inl e)
              with nr a' b' show ?thesis by (simp add: settle_trade_unfold)
            next
              case c1: (Inr u1)
              show ?thesis
              proof (cases "connect W (tr @ [NewClient ?cs]) ?cd")
                case (Inl e)
                with nr a' b' c1 show ?thesis by (simp add: settle_trade_unfold)
              next
                case c2: (Inr u2)
                show ?thesis
                proof (cases "fst (signer_not_owner W ?cs (tr @ [NewClient ?cs, NewClient ?cd])) = Inr None")
                  case False
                  with nr a' b' c1 c2 show ?thesis
                    by (simp add: settle_trade_unfold split: if_splits)
                next
                  case so: True
                  show ?thesis
                  proof (cases "od_baseAsset od")
                    case None
                    with nr a' b' c1 c2 so show ?thesis
                      by (simp add: settle_trade_unfold split: if_splits)
                  next
                    case ba: (Some bs)
                    show ?thesis
                    proof (cases "od_quoteAsset od")
                      case None
                      with nr a' b' c1 c2 so ba show ?thesis
                        by (simp add: settle_trade_unfold split: if_splits)
                    next
                      case (Some qs)
                      with nr a' b' c1 c2 so ba none show ?thesis
                        by (simp add: preflight_entry_def Let_def)
                    qed
                  qed
                qed
              qed
            qed
          qed
        qed
      qed
    qed
  qed
qed


fun orchestrator_event :: "event \<Rightarrow> bool" where
  "orchestrator_event (NewClient c) = True"
| "orchestrator_event (CheckEscrowBalance c u t d) = (d = 18)"
| "orchestrator_event (GetUserNonce c u t) = True"
| "orchestrator_event (GetContractOwner c) = True"
| "orchestrator_event (SettleSameChainTrade c a) = True"
| "orchestrator_event (SettleCrossChainTrade c a s) = True"
| "orchestrator_event e = False"

fun submission_args :: "event \<Rightarrow> settle_args option" where
  "submission_args (SettleSameChainTrade c a) = Some a"
| "submission_args (SettleCrossChainTrade c a s) = Some a"
| "submission_args e = None"

lemma settle_legs_events:
  "\<exists>new. snd (settle_legs W cs cd r oid base qsrc qdst p q sid did ts n1 n2 tr) = tr @ new
     \<and> list_all orchestrator_event new
     \<and> (\<forall>e \<in> set new. \<forall>a. submission_args e = Some a \<longrightarrow>
           sa_order_id a = oid \<and> sa_price a = p \<and> sa_quantity a = q \<and> sa_timestamp a = ts)"
proof (cases "sid = did")
  case True
  then show ?thesis
    by (auto simp: settle_legs_same leg_args_def Let_def split: sum.splits)
next
  case False
  then show ?thesis
    by (auto simp: settle_legs_cross leg_args_def Let_def split: sum.splits)
qed

lemma settle_trade_events:
  "\<exists>new. snd (settle_trade W cfg od idx trade tr) = tr @ new
     \<and> list_all orchestrator_event new
     \<and> (\<forall>e \<in> set new. \<forall>a. submission_args e = Some a \<longrightarrow>
           (\<exists>orderId. od_orderId od = Some orderId
              \<and> sa_order_id a = settlement_id W orderId (timestamp trade) idx)
           \<and> sa_price a = price trade \<and> sa_quantity a = quantity trade
           \<and> sa_timestamp a = timestamp trade)"
proof (cases "preflight_entry W cfg od trade tr")
  case None
  from settle_trade_no_entry [OF None, of idx] obtain new where
    n: "snd (settle_trade W cfg od idx trade tr) = tr @ new"
       "\<forall>e \<in> set new. \<exists>c. e = NewClient c \<or> e = GetContractOwner c"
    by blast
  from n(2) have "list_all orchestrator_event new" "\<forall>e \<in> set new. submission_args e = None"
    by (auto simp: list_all_iff)
  with n(1) show ?thesis by auto
next
  case (Some x)
  obtain r src dst base qsrc qdst where x: "x = (r, src, dst, base, qsrc, qdst)"
    by (cases x) auto
  note st = settle_trade_preflight [OF Some [unfolded x], of idx]
  let ?cs = "(rpc src, contract_of cfg src)"
  let ?cd = "(rpc dst, contract_of cfg dst)"
  let ?tr3 = "tr @ [NewClient ?cs, NewClient ?cd, GetContractOwner ?cs]"
  let ?tr4 = "?tr3 @ [CheckEscrowBalance ?cs (ask_addr r) (PStr base) 18]"
  let ?tr5 = "?tr4 @ [CheckEscrowBalance ?cd (bid_addr r) (PStr qdst) 18]"
  let ?tr6 = "?tr5 @ [GetUserNonce ?cs (ask_addr r) (PStr base)]"
  let ?tr7 = "?tr6 @ [GetUserNonce ?cd (bid_addr r) (PStr qdst)]"
  show ?thesis
  proof (cases "get_available (balance_answer W ?tr3 ?cs (ask_addr r) (PStr base) 18) < quantity trade")
    case True
    with st show ?thesis by (simp add: Let_def)
  next
    case ask: False
    show ?thesis
    proof (cases "get_available (balance_answer W ?tr4 ?cd (bid_addr r) (PStr qdst) 18)
                    < quantity trade * price trade")
      case True
      with st ask show ?thesis by (simp add: Let_def)
    next
      case bid: False
      show ?thesis
      proof (cases "od_orderId od")
        case None
        with st ask bid show ?thesis by (simp add: Let_def)
      next
        case (Some orderId)
        from settle_legs_events [of W ?cs ?cd r "settlement_id W orderId (timestamp trade) idx"
            base qsrc qdst "price trade" "quantity trade" "chain_id src" "chain_id dst"
            "timestamp trade" "nonce_answer W ?tr5 ?cs (ask_addr r) (PStr base)"
            "nonce_answer W ?tr6 ?cd (bid_addr r) (PStr qdst)" ?tr7]
        obtain new where
          n: "snd (settle_legs W ?cs ?cd r (settlement_id W orderId (timestamp trade) idx)
            base qsrc qdst (price trade) (quantity trade) (chain_id src) (chain_id dst)
            (timestamp trade) (nonce_answer W ?tr5 ?cs (ask_addr r) (PStr base))
            (nonce_answer W ?tr6 ?cd (bid_addr r) (PStr qdst)) ?tr7) = ?tr7 @ new"
          "list_all orchestrator_event new"
          "\<forall>e \<in> set new. \<forall>a. submission_args e = Some a \<longrightarrow>
             sa_order_id a = settlement_id W orderId (timestamp trade) idx
             \<and> sa_price a = price trade \<and> sa_quantity a = quantity trade
             \<and> sa_timestamp a = timestamp trade"
          by blast
        have eq: "snd (settle_trade W cfg od idx trade tr) =
          tr @ ([NewClient ?cs, NewClient ?cd, GetContractOwner ?cs,
                 CheckEscrowBalance ?cs (ask_addr r) (PStr base) 18,
                 CheckEscrowBalance ?cd (bid_addr r) (PStr qdst) 18,
                 GetUserNonce ?cs (ask_addr r) (PStr base),
                 GetUserNonce ?cd (bid_addr r) (PStr qdst)] @ new)"
          using st ask bid Some n(1) by (simp add: Let_def)
        show ?thesis
          apply (rule exI, rule conjI, rule eq)
          using n(2) n(3) Some by auto
      qed
    qed
  qed
qed


lemma settle_loop_events:
  "\<exists>new. snd (settle_loop W cfg od idx ts tr) = tr @ new \<and> list_all orchestrator_event new"
proof (induction ts arbitrary: idx tr)
  case Nil
  show ?case by simp
next
  case (Cons t ts)
  from settle_trade_events [of W cfg od idx t tr] obtain n1 where
    n1: "snd (settle_trade W cfg od idx t tr) = tr @ n1" "list_all orchestrator_event n1"
    by blast
  from Cons.IH [of "Suc idx" "tr @ n1"] obtain n2 where
    n2: "snd (settle_loop W cfg od (Suc idx) ts (tr @ n1)) = (tr @ n1) @ n2"
        "list_all orchestrator_event n2"
    by blast
  obtain out tr1 where o: "settle_trade W cfg od idx t tr = (out, tr1)"
    by (cases "settle_trade W cfg od idx t tr")
  with n1 have tr1: "tr1 = tr @ n1" by simp
  show ?case
  proof (cases out)
    case (Inl e)
    with o tr1 n1 show ?thesis by auto
  next
    case (Inr res)
    obtain out2 tr2 where o2: "settle_loop W cfg od (Suc idx) ts (tr @ n1) = (out2, tr2)"
      by (cases "settle_loop W cfg od (Suc idx) ts (tr @ n1)")
    with n2 have "tr2 = tr @ (n1 @ n2)" by simp
    moreover have "list_all orchestrator_event (n1 @ n2)" using n1 n2 by simp
    ultimately show ?thesis using o Inr tr1 o2
      by (cases out2) (auto simp del: append_assoc)
  qed
qed

lemma settle_loop_results:
  "settle_loop W cfg od idx ts tr = (Inr rs, tr') \<Longrightarrow> map fst rs = ts"
proof (induction ts arbitrary: idx tr rs tr')
  case Nil
  then show ?case by simp
next
  case (Cons t ts)
  then show ?case
    by (auto split: sum.splits prod.splits)
qed

lemma settle_trades_if_any_returns:
  "\<exists>info. fst (settle_trades_if_any W cfg od tr) = Inr info"
  by (auto simp: settle_trades_if_any_def return_def io_try_def io_bind_def
      split: sum.splits prod.splits)

lemma settle_trades_if_any_events:
  "\<exists>new. snd (settle_trades_if_any W cfg od tr) = tr @ new \<and> list_all orchestrator_event new"
  using settle_loop_events [of W cfg od 0 "od_trades od" tr]
  by (auto simp: settle_trades_if_any_def return_def io_try_def io_bind_def
      split: sum.splits prod.splits)

lemma settle_trades_if_any_same_returns:
  "\<exists>info. fst (settle_trades_if_any_same W cfg od tr) = Inr info"
  using settle_trades_if_any_returns [of W cfg od tr]
  by (auto simp: settle_trades_if_any_same_def return_def io_try_def io_bind_def lift_def
      split: sum.splits prod.splits list.splits)

lemma settle_trades_if_any_same_events:
  "\<exists>new. snd (settle_trades_if_any_same W cfg od tr) = tr @ new \<and> list_all orchestrator_event new"
  using settle_trades_if_any_events [of W cfg od tr]
  by (auto simp: settle_trades_if_any_same_def return_def io_try_def io_bind_def lift_def
      split: sum.splits prod.splits list.splits)

text \<open>What a completed settlement reports: one entry per trade, and the count of the successful ones.\<close>

lemma settle_trades_if_any_Settled:
  assumes "fst (settle_trades_if_any W cfg od tr) = Inr (Settled rs n k)"
  shows "map fst rs = od_trades od \<and> n = length (od_trades od) \<and> k = successful_count rs"
  using assms settle_loop_results [of W cfg od 0 "od_trades od" tr]
  by (auto simp: settle_trades_if_any_def return_def io_try_def io_bind_def
      split: sum.splits prod.splits if_splits)

lemma settle_trades_if_any_same_Settled:
  assumes "fst (settle_trades_if_any_same W cfg od tr) = Inr (Settled rs n k)"
  shows "map fst rs = od_trades od \<and> n = length (od_trades od) \<and> k = successful_count rs"
  using assms settle_trades_if_any_Settled [of W cfg od tr rs n k]
  by (auto simp: settle_trades_if_any_same_def return_def io_try_def io_bind_def lift_def
      split: sum.splits prod.splits if_splits list.splits)

lemma run_settlement_returns:
  "\<exists>info. fst (run_settlement W cfg od tr) = Inr info"
  by (auto simp: run_settlement_def return_def io_try_def io_bind_def lift_def
      split: sum.splits prod.splits)

lemma run_settlement_events:
  "\<exists>new. snd (run_settlement W cfg od tr) = tr @ new \<and> list_all orchestrator_event new"
  using settle_trades_if_any_same_events [of W cfg od tr]
  by (auto simp: run_settlement_def return_def io_try_def io_bind_def lift_def
      split: sum.splits prod.splits)

lemma run_settlement_Settled:
  assumes "fst (run_settlement W cfg od tr) = Inr (Settled rs n k)"
  shows "map fst rs = od_trades od \<and> n = length (od_trades od) \<and> k = successful_count rs"
  using assms settle_trades_if_any_same_Settled [of W cfg od tr rs n k]
  by (auto simp: run_settlement_def return_def io_try_def io_bind_def lift_def
      split: sum.splits prod.splits if_splits)

lemma successful_count_all:
  "(length rs \<le> successful_count rs) = (\<forall>x \<in> set rs. settlement_success (snd x))"
proof -
  have "length (filter P rs) = length rs \<longleftrightarrow> (\<forall>x \<in> set rs. P x)" for P :: "trade \<times> trade_settlement \<Rightarrow> bool"
    by (metis filter_id_conv length_filter_less less_irrefl)
  moreover have "length (filter P rs) \<le> length rs" for P :: "trade \<times> trade_settlement \<Rightarrow> bool"
    by simp
  ultimately show ?thesis unfolding successful_count_def
    by (metis le_antisym order_refl)
qed


lemma submission_orchestrated: "is_submission e \<Longrightarrow> submission_args e \<noteq> None"
  by (cases e) auto

section \<open>The pre-flight escrow check\<close>



section \<open>A concrete deployment\<close>

definition hbar_hedera :: string where
  "hbar_hedera = ''0x66B8244b08be8F4Cec1A23C5c57A1d7b8A27189D''"

definition usdt_hedera :: string where
  "usdt_hedera = ''0x62bcF51859E23cc47ddc6C3144B045619476Be92''"

definition hbar_ethereum :: string where
  "hbar_ethereum = ''0xb458260166d1456A5ffB46eBbC4270738A515286''"

definition usdt_ethereum :: string where
  "usdt_ethereum = ''0x7169D38820dfd117C3FA1f22a697dBA58d90BA06''"

definition hedera :: network_cfg where
  "hedera = \<lparr>rpc = Some ''https://testnet.hashio.io/api'',
             contract_address = Some ''0x237458E2cF7593084Ae397a50166A275A3928bA7'',
             chain_id = Some 296,
             tokens = [(''HBAR'', hbar_hedera), (''USDT'', usdt_hedera)]\<rparr>"

definition ethereum :: network_cfg where
  "ethereum = \<lparr>rpc = Some ''https://ethereum-sepolia-rpc.publicnode.com'',
               contract_address = Some ''0x10F0F2cb456BEd15655afB22ddd7d0EEE11FdBc9'',
               chain_id = Some 11155111,
               tokens = [(''USDT'', usdt_ethereum), (''HBAR'', hbar_ethereum)]\<rparr>"

definition example_config :: config where
  "example_config =
     \<lparr>SUPPORTED_NETWORKS = [(''hedera'', hedera), (''ethereum'', ethereum)],
      TOKEN_ADDRESSES = [],
      TRADE_SETTLEMENT_CONTRACT_ADDRESS = Some ''0x237458E2cF7593084Ae397a50166A275A3928bA7'',
      PRIVATE_KEY = Some ''key'',
      SETTLEMENT_SYNC_TIMEOUT = Inr 20,
      activity_log = True,
      append_file = True\<rparr>"

definition checksum_of :: "pyval \<Rightarrow> pyexn + string" where
  "checksum_of v = (case v of PStr a \<Rightarrow> Inr a | other \<Rightarrow> Inl (PyExn ''invalid address''))"

text \<open>
  A chain on which every account holds \<open>raw\<close> smallest units of every token, none of
  them locked, and the token contracts answer \<open>decimals()\<close> with \<open>dec\<close>.
\<close>

definition example_web3 :: "int \<Rightarrow> pyexn + int \<Rightarrow> web3" where
  "example_web3 raw dec =
     \<lparr>to_checksum_address = checksum_of,
      checkEscrowBalance_call = (\<lambda>u t. Inr (raw, raw, 0)),
      decimals_call = (\<lambda>t. dec),
      getUserNonce_call = (\<lambda>u t. Inr 0),
      owner_call = Inr ''0xowner'',
      account = Some ''0xowner'',
      preflight_call = (\<lambda>d. Inr ()),
      sign_transaction = (\<lambda>d. Inr ()),
      send_raw_transaction = (\<lambda>d. Inr ''0xhash''),
      wait_for_transaction_receipt = (\<lambda>h. Inr \<lparr>status = 1, transactionHash = h\<rparr>)\<rparr>"

definition example_world :: "int \<Rightarrow> pyexn + int \<Rightarrow> process_result \<Rightarrow> bool \<Rightarrow> string \<Rightarrow> world" where
  "example_world raw dec pr late tok =
     \<lparr>connect = (\<lambda>tr c. Inr ()),
      web3_at = (\<lambda>tr c. example_web3 raw dec),
      cross_leg = (\<lambda>tr c a s. Inr (failure ''reverted'')),
      sha256_hexdigest = (\<lambda>s. s),
      process_order_call = (\<lambda>tr symbol order'. Inr pr),
      cancel_order_call = (\<lambda>tr symbol side oid. Inr ()),
      timed_out = (\<lambda>tr secs. late),
      cross_connect = (\<lambda>tr r. Inr ()),
      cross_checkEscrowBalance = (\<lambda>tr r a u t. Inr (raw, raw, 0)),
      cross_settle = (\<lambda>tr r a d s. Inr \<lparr>status = 0, transactionHash = ''0xhash''\<rparr>),
      token_hex = (\<lambda>tr. tok),
      time_now = (\<lambda>tr. 1700),
      to_checksum = checksum_of\<rparr>"

text \<open>A resting ask of 5 HBAR at 10 USDT, taken by a bid, both on Hedera.\<close>

definition example_trade :: trade where
  "example_trade =
     \<lparr>timestamp = 1700, price = 10, quantity = 5, time = 1,
      party1 = [PStr ''0xseller'', PStr ''ask'', PInt 1, PNum 0, PNone,
                PStr ''hedera'', PStr ''hedera'', PStr ''0xseller''],
      party2 = [PStr ''0xbuyer'', PStr ''bid'', PNone, PNone, PNone,
                PStr ''hedera'', PStr ''hedera'', PStr ''0xbuyer'']\<rparr>"

definition example_roles :: roles where
  "example_roles =
     \<lparr>ask_addr = PStr ''0xseller'', ask_from_network = PStr ''hedera'',
      ask_to_network = PStr ''hedera'', ask_recv = PStr ''0xseller'',
      bid_addr = PStr ''0xbuyer'', bid_from_network = PStr ''hedera'',
      bid_to_network = PStr ''hedera'', bid_recv = PStr ''0xbuyer''\<rparr>"

definition example_order_dict :: order_dict where
  "example_order_dict =
     \<lparr>od_orderId = Some 7, od_baseAsset = Some ''HBAR'', od_quoteAsset = Some ''USDT'',
      od_trades = [example_trade]\<rparr>"

lemma example_entry:
  "preflight_entry (example_world raw dec pr late tok) example_config example_order_dict
      example_trade [] =
     Some (example_roles, hedera, hedera, hbar_hedera, usdt_hedera, usdt_hedera)"
  by code_simp


text \<open>The bid of the buyer as a request, the order the book hands back, and the book's answer.\<close>

definition example_payload :: payload where
  "example_payload =
     \<lparr>p_attach_signature = False, p_account = Some ''0xbuyer'', p_side = Some ''bid'',
      p_quantity = Some 5, p_price = Some 10,
      p_from_network = Some ''hedera'', p_fromNetwork = None,
      p_to_network = Some ''hedera'', p_toNetwork = None,
      p_baseAsset = Some ''HBAR'', p_quoteAsset = Some ''USDT'',
      p_type = None, p_receive_wallet = None, p_receiveWallet = None\<rparr>"

definition example_order :: "int option \<Rightarrow> order" where
  "example_order oid =
     \<lparr>o_type = ''limit'', o_trade_id = ''0xbuyer'', o_from_network = ''hedera'',
      o_to_network = ''hedera'', o_receive_wallet = None, o_account = ''0xbuyer'',
      o_price = 10, o_quantity = 5, o_side = ''bid'', o_baseAsset = ''HBAR'',
      o_quoteAsset = ''USDT'', o_order_id = oid, o_timestamp = Some 1700\<rparr>"

definition example_result :: "int option \<Rightarrow> process_result" where
  "example_result oid =
     \<lparr>pr_success = True, pr_message = [], pr_trades = [example_trade],
      pr_order = (case oid of None \<Rightarrow> None | Some i \<Rightarrow> Some (example_order oid)),
      pr_quote = example_order None\<rparr>"

definition poor_world :: world where
  "poor_world = example_world 0 (Inr 18) (example_result None) False ''00''"

definition base_only_world :: world where
  "base_only_world = example_world (5 * 10 ^ 18) (Inr 18) (example_result None) False ''00''"

definition funded_world :: world where
  "funded_world = example_world (50 * 10 ^ 18) (Inr 18) (example_result None) False ''00''"

definition hedera_client :: client where
  "hedera_client = (Some ''https://testnet.hashio.io/api'',
                    Some ''0x237458E2cF7593084Ae397a50166A275A3928bA7'')"

lemma example_available:
  "get_available (balance_answer (example_world raw dec pr late tok) tr c (PStr u) (PStr t) 18)
     = of_int raw / 10 ^ 18"
  by (simp add: balance_answer_def check_escrow_balance_def example_world_def example_web3_def
      checksum_of_def try_except_def bind_raise_def divisor_def)

lemma example_clients:
  "(rpc hedera, contract_of example_config hedera) = hedera_client"
  by (simp add: hedera_def contract_of_def hedera_client_def)

lemma example_trade_fields:
  "quantity example_trade = 5" "price example_trade = 10" "timestamp example_trade = 1700"
  "ask_addr example_roles = PStr ''0xseller''" "bid_addr example_roles = PStr ''0xbuyer''"
  by (simp_all add: example_trade_def example_roles_def)

lemma poor_run: "settle_trade poor_world example_config example_order_dict 0 example_trade [] =
       (Inr (Failed ''insufficient_ask_base_escrow'' (Some (RequiredAvailable 5 0))),
        [NewClient hedera_client, NewClient hedera_client, GetContractOwner hedera_client,
         CheckEscrowBalance hedera_client (PStr ''0xseller'') (PStr hbar_hedera) 18])"
  using settle_trade_preflight [OF example_entry, of 0 "Inr 18" "example_result None" False "''00''" 0]
  by (simp add: poor_world_def Let_def example_available example_clients example_trade_fields)

lemma base_only_run: "settle_trade base_only_world example_config example_order_dict 0 example_trade [] =
       (Inr (Failed ''insufficient_bid_quote_escrow'' (Some (RequiredAvailable 50 5))),
        [NewClient hedera_client, NewClient hedera_client, GetContractOwner hedera_client,
         CheckEscrowBalance hedera_client (PStr ''0xseller'') (PStr hbar_hedera) 18,
         CheckEscrowBalance hedera_client (PStr ''0xbuyer'') (PStr usdt_hedera) 18])"
  using settle_trade_preflight [OF example_entry, of "5 * 10 ^ 18" "Inr 18" "example_result None" False "''00''" 0]
  by (simp add: base_only_world_def Let_def example_available example_clients example_trade_fields)


definition settled_ok :: settle_result where
  "settled_ok = \<lparr>success = True, transaction_hash = Some ''0xhash'', error = None,
                  skipped = False, reason = None\<rparr>"

lemma example_settle_same:
  "settle_same_chain_trade (example_web3 raw dec)
     (leg_args example_roles oid base quote p q sid did ts n1 n2) = Inr settled_ok"
  by (simp add: settle_same_chain_trade_def example_web3_def leg_args_def example_roles_def
      checksum_of_def try_except_def bind_raise_def Let_def settled_ok_def)

lemma example_nonce:
  "nonce_answer (example_world raw dec pr late tok) tr c (PStr u) (PStr t) = 0"
  by (simp add: nonce_answer_def get_user_nonce_def example_world_def example_web3_def
      checksum_of_def try_except_def bind_raise_def)

lemma example_settlement_id:
  "settlement_id (example_world raw dec pr late tok) 7 1700 0 = ''7:1700:0''"
  by code_simp

definition example_args :: settle_args where
  "example_args = leg_args example_roles ''7:1700:0'' hbar_hedera usdt_hedera 10 5
                    (Some 296) (Some 296) 1700 0 0"

lemma funded_run:
  "settle_trade funded_world example_config example_order_dict 0 example_trade [] =
     (Inr (Legs True settled_ok same_chain_atomic (Some ''7:1700:0'')),
      [NewClient hedera_client, NewClient hedera_client, GetContractOwner hedera_client,
       CheckEscrowBalance hedera_client (PStr ''0xseller'') (PStr hbar_hedera) 18,
       CheckEscrowBalance hedera_client (PStr ''0xbuyer'') (PStr usdt_hedera) 18,
       GetUserNonce hedera_client (PStr ''0xseller'') (PStr hbar_hedera),
       GetUserNonce hedera_client (PStr ''0xbuyer'') (PStr usdt_hedera),
       CheckEscrowBalance hedera_client (PStr ''0xseller'') (PStr hbar_hedera) 18,
       CheckEscrowBalance hedera_client (PStr ''0xbuyer'') (PStr usdt_hedera) 18,
       SettleSameChainTrade hedera_client example_args])"
proof -
  have oid: "od_orderId example_order_dict = Some 7" by (simp add: example_order_dict_def)
  have cid: "chain_id hedera = Some 296" by (simp add: hedera_def)
  have w: "web3_at (example_world raw dec pr late tok) tr c = example_web3 raw dec"
    for raw dec pr late tok tr c by (simp add: example_world_def)
  show ?thesis
    using settle_trade_preflight [OF example_entry, of "50 * 10 ^ 18" "Inr 18" "example_result None"
        False "''00''" 0]
    by (simp add: funded_world_def Let_def example_available example_clients example_trade_fields
        oid cid settle_legs_same example_nonce example_settlement_id w example_settle_same
        example_args_def settled_ok_def)
qed






section \<open>The decimals of the pre-settlement checks\<close>

lemma divisor_18: "divisor 18 = 10 ^ 18"
  by (simp add: divisor_def)

lemma check_escrow_balance_18:
  assumes "read_balance_raw w u t = Inr (tot, avail, lck)"
  shows "\<exists>b. check_escrow_balance w u t 18 = Inr (Balances b) \<and> available b = of_int avail / 10 ^ 18
            \<and> available_wei b = avail"
  using assms
  by (auto simp: check_escrow_balance_def read_balance_raw_def try_except_def bind_raise_def
      divisor_18 split: sum.splits)

lemma check_escrow_balance_ignores_decimals:
  "check_escrow_balance (w\<lparr>decimals_call := f\<rparr>) u t d = check_escrow_balance w u t d"
  by (simp add: check_escrow_balance_def)

lemma scaled_differs:
  assumes "0 \<le> d" "d < 18" "raw \<noteq> 0"
  shows "(of_int raw / divisor 18 :: rat) \<noteq> of_int raw / divisor d"
proof
  assume eq: "(of_int raw / divisor 18 :: rat) = of_int raw / divisor d"
  from assms(1) have dd: "divisor d = 10 ^ nat d" by (simp add: divisor_def)
  from assms(3) have r: "(of_int raw :: rat) \<noteq> 0" by simp
  from eq r have "(10::rat) ^ 18 = 10 ^ nat d"
    by (simp add: divisor_18 dd field_simps)
  then have "(18::nat) = nat d"
    by (subst (asm) power_inject_exp) simp_all
  with assms(2) show False by simp
qed

text \<open>
  C10. Every escrow balance check that the settlement orchestrator makes passes
  \<open>token_decimals = 18\<close>; the available amount such a check reports is the raw on-chain
  amount divided by \<open>10^18\<close>, whatever the token contract answers to \<open>decimals()\<close>; and
  for a token of fewer than 18 decimals with a non-zero raw balance this is not the
  balance in the token's own units.
\<close>

theorem preflight_decimals_fixed_18:
  "(\<exists>new. snd (settle_trades_if_any W cfg od tr) = tr @ new
        \<and> (\<forall>c u t d. CheckEscrowBalance c u t d \<in> set new \<longrightarrow> d = 18))
   \<and> (\<forall>w u t tot avail lck. read_balance_raw w u t = Inr (tot, avail, lck) \<longrightarrow>
         (\<exists>b. check_escrow_balance w u t 18 = Inr (Balances b)
             \<and> available b = of_int avail / 10 ^ 18))
   \<and> (\<forall>w f u t. check_escrow_balance (w\<lparr>decimals_call := f\<rparr>) u t 18
                  = check_escrow_balance w u t 18)
   \<and> (\<forall>raw d. 0 \<le> d \<and> d < 18 \<and> raw \<noteq> 0 \<longrightarrow>
         (of_int raw / divisor 18 :: rat) \<noteq> of_int raw / divisor d)"
proof (intro conjI allI impI)
  from settle_trades_if_any_events [of W cfg od tr] obtain new where
    n: "snd (settle_trades_if_any W cfg od tr) = tr @ new" "list_all orchestrator_event new"
    by blast
  have "d = 18" if "CheckEscrowBalance c u t d \<in> set new" for c u t d
  proof -
    from n(2) have "\<forall>x \<in> set new. orchestrator_event x" by (simp add: list_all_iff)
    from this that have "orchestrator_event (CheckEscrowBalance c u t d)" by (rule bspec)
    then show ?thesis by simp
  qed
  with n(1) show "\<exists>new. snd (settle_trades_if_any W cfg od tr) = tr @ new
        \<and> (\<forall>c u t d. CheckEscrowBalance c u t d \<in> set new \<longrightarrow> d = 18)"
    by blast
next
  fix w u t tot avail lck
  assume "read_balance_raw w u t = Inr (tot, avail, lck)"
  from check_escrow_balance_18 [OF this]
  show "\<exists>b. check_escrow_balance w u t 18 = Inr (Balances b)
             \<and> available b = of_int avail / 10 ^ 18" by blast
next
  fix w :: web3 and f u t
  show "check_escrow_balance (w\<lparr>decimals_call := f\<rparr>) u t 18 = check_escrow_balance w u t 18"
    by (rule check_escrow_balance_ignores_decimals)
next
  fix raw d :: int
  assume "0 \<le> d \<and> d < 18 \<and> raw \<noteq> 0"
  then show "(of_int raw / divisor 18 :: rat) \<noteq> of_int raw / divisor d"
    using scaled_differs by blast
qed

text \<open>
  Five USDT (six decimals, raw amount 5000000) are seen by the check as
  \<open>5000000 / 10^18\<close>, and the run of the funded example makes its checks with 18.
\<close>

lemma example_raw_read:
  "read_balance_raw (example_web3 raw dec) (PStr u) (PStr t) = Inr (raw, raw, 0)"
  by (simp add: read_balance_raw_def example_web3_def checksum_of_def bind_raise_def)

lemma funded_order_run:
  "snd (settle_trades_if_any funded_world example_config example_order_dict []) =
      [NewClient hedera_client, NewClient hedera_client, GetContractOwner hedera_client,
       CheckEscrowBalance hedera_client (PStr ''0xseller'') (PStr hbar_hedera) 18,
       CheckEscrowBalance hedera_client (PStr ''0xbuyer'') (PStr usdt_hedera) 18,
       GetUserNonce hedera_client (PStr ''0xseller'') (PStr hbar_hedera),
       GetUserNonce hedera_client (PStr ''0xbuyer'') (PStr usdt_hedera),
       CheckEscrowBalance hedera_client (PStr ''0xseller'') (PStr hbar_hedera) 18,
       CheckEscrowBalance hedera_client (PStr ''0xbuyer'') (PStr usdt_hedera) 18,
       SettleSameChainTrade hedera_client example_args]"
  by (simp add: settle_trades_if_any_def example_order_dict_def io_try_def io_bind_def return_def
      funded_run [unfolded example_order_dict_def])

theorem preflight_decimals_fixed_18_witness:
  "CheckEscrowBalance hedera_client (PStr ''0xseller'') (PStr hbar_hedera) 18
     \<in> set (snd (settle_trades_if_any funded_world example_config example_order_dict []))
   \<and> read_balance_raw (example_web3 5000000 (Inr 6)) (PStr ''0xbuyer'') (PStr usdt_hedera)
       = Inr (5000000, 5000000, 0)
   \<and> (\<exists>b. check_escrow_balance (example_web3 5000000 (Inr 6)) (PStr ''0xbuyer'') (PStr usdt_hedera) 18
             = Inr (Balances b) \<and> available b = 5000000 / 10 ^ 18)
   \<and> (0::int) \<le> 6 \<and> (6::int) < 18 \<and> (5000000::int) \<noteq> 0
   \<and> (of_int 5000000 / divisor 18 :: rat) \<noteq> of_int 5000000 / divisor 6"
proof -
  note th = preflight_decimals_fixed_18 [of funded_world example_config example_order_dict "[]"]
  from th have a: "\<forall>w u t tot avail lck. read_balance_raw w u t = Inr (tot, avail, lck) \<longrightarrow>
         (\<exists>b. check_escrow_balance w u t 18 = Inr (Balances b)
             \<and> available b = of_int avail / 10 ^ 18)" by blast
  from th have b: "\<forall>raw d. 0 \<le> d \<and> d < 18 \<and> raw \<noteq> 0 \<longrightarrow>
         (of_int raw / divisor 18 :: rat) \<noteq> of_int raw / divisor d" by blast
  have r: "read_balance_raw (example_web3 5000000 (Inr 6)) (PStr ''0xbuyer'') (PStr usdt_hedera)
       = Inr (5000000, 5000000, 0)" by (rule example_raw_read)
  from a r have c: "\<exists>b. check_escrow_balance (example_web3 5000000 (Inr 6)) (PStr ''0xbuyer'')
             (PStr usdt_hedera) 18 = Inr (Balances b) \<and> available b = 5000000 / 10 ^ 18"
    by fastforce
  from b [rule_format, of 6 5000000]
  have d: "(of_int 5000000 / divisor 18 :: rat) \<noteq> of_int 5000000 / divisor 6"
    by simp
  have e: "CheckEscrowBalance hedera_client (PStr ''0xseller'') (PStr hbar_hedera) 18
     \<in> set (snd (settle_trades_if_any funded_world example_config example_order_dict []))"
    by (simp add: funded_order_run)
  from e r c d show ?thesis by simp
qed

section \<open>The cross-chain registration path on a concrete trade\<close>

text \<open>
  A resting bid for 5 HBAR at 12 USDT, escrowed on Ethereum, is taken by an ask with
  limit price 10 that comes from Hedera.  The trade executes at the resting order's
  price 12.  The party records have the layout \<open>register_order_cross\<close> reads.
\<close>

definition cross_trade :: trade where
  "cross_trade =
     \<lparr>timestamp = 1700, price = 12, quantity = 5, time = 1,
      party1 = [PStr ''0xbuyer'', PStr ''bid'', PInt 1, PNum 0, PStr ''ethereum'',
                PStr ''hedera'', PStr ''0xbuyer'',
                PDict [(''baseAsset'', ''HBAR''), (''quoteAsset'', ''USDT'')]],
      party2 = [PStr ''0xseller'', PStr ''ask'', PNone, PNone, PStr ''hedera'',
                PStr ''ethereum'', PStr ''0xseller'',
                PDict [(''baseAsset'', ''HBAR''), (''quoteAsset'', ''USDT'')]]\<rparr>"

definition cross_payload :: payload where
  "cross_payload =
     \<lparr>p_attach_signature = False, p_account = Some ''0xseller'', p_side = Some ''ask'',
      p_quantity = Some 5, p_price = Some 10,
      p_from_network = Some ''hedera'', p_fromNetwork = None,
      p_to_network = Some ''ethereum'', p_toNetwork = None,
      p_baseAsset = Some ''HBAR'', p_quoteAsset = Some ''USDT'',
      p_type = None, p_receive_wallet = None, p_receiveWallet = None\<rparr>"

definition cross_result :: process_result where
  "cross_result =
     \<lparr>pr_success = True, pr_message = [], pr_trades = [cross_trade], pr_order = None,
      pr_quote = \<lparr>o_type = ''limit'', o_trade_id = ''0xseller'', o_from_network = ''hedera'',
                  o_to_network = ''ethereum'', o_receive_wallet = None, o_account = ''0xseller'',
                  o_price = 10, o_quantity = 5, o_side = ''ask'', o_baseAsset = ''HBAR'',
                  o_quoteAsset = ''USDT'', o_order_id = None, o_timestamp = Some 1700\<rparr>\<rparr>"

text \<open>The world of the example: every \<open>cross_settle\<close> comes back with receipt status 0.\<close>

definition cross_world :: "string \<Rightarrow> world" where
  "cross_world tok = example_world (5 * 10 ^ 18) (Inr 18) cross_result False tok"

definition cross_trade_data :: "string \<Rightarrow> trade_data" where
  "cross_trade_data tok =
     \<lparr>td_orderId = HexBytes tok, td_party1 = ''0xseller'', td_party2 = ''0xbuyer'',
      td_party1ReceiveWallet = ''0xseller'', td_party2ReceiveWallet = ''0xbuyer'',
      td_baseAsset = hbar_hedera, td_quoteAsset = usdt_ethereum,
      td_price = 10 * 10 ^ 18, td_quantity = 5 * 10 ^ 18,
      td_party1Side = ''ask'', td_party2Side = ''bid'',
      td_sourceChainId = Some 296, td_destinationChainId = Some 11155111,
      td_timestamp = 1700, td_nonce1 = 0, td_nonce2 = 0\<rparr>"

definition reverted :: receipt where
  "reverted = \<lparr>status = 0, transactionHash = ''0xhash''\<rparr>"

lemma cross_parties:
  "cross_party_of (SUPPORTED_NETWORKS example_config) True (party1 cross_trade) =
     Inr \<lparr>cp_account = PStr ''0xbuyer'', cp_side = PStr ''bid'',
          cp_source_chain = PStr ''ethereum'', cp_dest_chain = PStr ''hedera'',
          cp_receive_wallet = PStr ''0xbuyer'',
          cp_base_asset = hbar_hedera, cp_quote_asset = usdt_ethereum\<rparr>"
  "cross_party_of (SUPPORTED_NETWORKS example_config) False (party2 cross_trade) =
     Inr \<lparr>cp_account = PStr ''0xseller'', cp_side = PStr ''ask'',
          cp_source_chain = PStr ''hedera'', cp_dest_chain = PStr ''ethereum'',
          cp_receive_wallet = PStr ''0xseller'',
          cp_base_asset = hbar_hedera, cp_quote_asset = usdt_ethereum\<rparr>"
  by (simp_all add: cross_party_of_def cross_trade_def example_config_def token_at_def
      hedera_def ethereum_def bind_raise_def subscript_def Let_def)

lemma trunc_int: "trunc (of_int n) = n"
  by (simp add: trunc_def)

lemma cross_trade_run:
  "cross_settle_trade (cross_world tok) (SUPPORTED_NETWORKS example_config) 10 cross_trade tr =
     (Inr (reverted, reverted),
      tr @ [TokenHex, Time,
            NewCrossClient (rpc hedera), NewCrossClient (rpc ethereum),
            CrossSettle (rpc hedera) (contract_address hedera) (cross_trade_data tok) True,
            CrossSettle (rpc ethereum) (contract_address ethereum) (cross_trade_data tok) False])"
proof -
  have q: "quantity cross_trade = 5" by (simp add: cross_trade_def)
  have "(5::rat) * 1000000000000000000 = of_int 5000000000000000000" by simp
  then have t: "\<lfloor>(5::rat) * 1000000000000000000\<rfloor> = 5000000000000000000"
    by (simp only: floor_of_int)
  have n: "network_at (SUPPORTED_NETWORKS example_config) (PStr ''hedera'') = Inr hedera"
    "network_at (SUPPORTED_NETWORKS example_config) (PStr ''ethereum'') = Inr ethereum"
    by (simp_all add: example_config_def subscript_def)
  have c: "chain_id hedera = Some 296" "chain_id ethereum = Some 11155111"
    by (simp_all add: hedera_def ethereum_def)
  show ?thesis
    unfolding cross_settle_trade_def
    by (simp add: cross_parties order_parties_def io_bind_def lift_def call_def return_def
        cross_world_def example_world_def checksum_of_def chain_id_at_def n c bind_raise_def
        subscript_def q t trunc_def Let_def cross_trade_data_def reverted_def
        del: network_at.simps)
qed


lemma cross_loop_run:
  "cross_settle_loop (cross_world tok) (SUPPORTED_NETWORKS example_config) 10 [cross_trade] tr =
     (Inr [(reverted, reverted)],
      tr @ [TokenHex, Time,
            NewCrossClient (rpc hedera), NewCrossClient (rpc ethereum),
            CrossSettle (rpc hedera) (contract_address hedera) (cross_trade_data tok) True,
            CrossSettle (rpc ethereum) (contract_address ethereum) (cross_trade_data tok) False])"
  by (simp add: cross_trade_run)

lemma cross_registration_run:
  "register_order_cross (cross_world tok) (SUPPORTED_NETWORKS example_config) [''HBAR_USDT'']
     cross_payload [] =
     (CrossOK (5 * 10 ^ 18) (5 * 10 ^ 18) 0 None [(reverted, reverted)],
      [NewCrossClient (rpc hedera),
       CrossCheckEscrowBalance (rpc hedera) (contract_address hedera) ''0xseller'' hbar_hedera,
       ProcessOrder ''HBAR_USDT'',
       TokenHex, Time,
       NewCrossClient (rpc hedera), NewCrossClient (rpc ethereum),
       CrossSettle (rpc hedera) (contract_address hedera) (cross_trade_data tok) True,
       CrossSettle (rpc ethereum) (contract_address ethereum) (cross_trade_data tok) False])"
proof -
  have n: "network_at (SUPPORTED_NETWORKS example_config) (PStr ''hedera'') = Inr hedera"
    by (simp add: example_config_def subscript_def)
  have tk: "token_at (SUPPORTED_NETWORKS example_config) (PStr ''hedera'') ''HBAR'' = Inr hbar_hedera"
    by (simp add: token_at_def n bind_raise_def hedera_def subscript_def del: network_at.simps)
  have w: "cross_connect (cross_world tok) = (\<lambda>tr r. Inr ())"
    "cross_checkEscrowBalance (cross_world tok) = (\<lambda>tr r a u t. Inr (5 * 10 ^ 18, 5 * 10 ^ 18, 0))"
    "process_order_call (cross_world tok) = (\<lambda>tr symbol order'. Inr cross_result)"
    by (simp_all add: cross_world_def example_world_def)
  have pr: "pr_success cross_result" "pr_trades cross_result = [cross_trade]"
    "pr_order cross_result = None"
    by (simp_all add: cross_result_def)
  show ?thesis
    unfolding register_order_cross_def
    by (simp add: cross_payload_def io_bind_def lift_def call_def return_def subscript_def
        bind_raise_def n tk w pr cross_loop_run Let_def
        del: network_at.simps cross_settle_loop.simps)
qed


fun submitted_structs :: "event list \<Rightarrow> trade_data list" where
  "submitted_structs [] = []"
| "submitted_structs (CrossSettle r a d s # es) = d # submitted_structs es"
| "submitted_structs (e # es) = submitted_structs es"

section \<open>Source leg before destination leg\<close>

text \<open>
  In the orchestrator a cross-chain trade has its source leg called first; the
  destination leg follows only when the source leg answered with success, and a source
  leg that answers without success ends the trade with the destination marked as skipped
  for \<open>source_failed\<close>.
\<close>

lemma orchestrator_source_before_destination:
  assumes "sid \<noteq> did"
  shows "\<exists>rest. snd (settle_legs W cs cd r oid base qsrc qdst p q sid did ts n1 n2 tr)
                  = tr @ SettleCrossChainTrade cs (leg_args r oid base qdst p q sid did ts n1 n2) True
                         # rest
           \<and> (rest = []
               \<or> rest = [SettleCrossChainTrade cd (leg_args r oid base qdst p q sid did ts n1 n2) False]
                 \<and> (\<exists>res. cross_leg W tr cs (leg_args r oid base qdst p q sid did ts n1 n2) True
                             = Inr res \<and> success res))"
  using assms
  by (auto simp: settle_legs_cross Let_def split: sum.splits)

lemma orchestrator_source_failed:
  assumes "sid \<noteq> did"
    and "cross_leg W tr cs (leg_args r oid base qdst p q sid did ts n1 n2) True = Inr res"
    and "\<not> success res"
  shows "settle_legs W cs cd r oid base qsrc qdst p q sid did ts n1 n2 tr =
           (Inr (Legs False res source_failed None),
            tr @ [SettleCrossChainTrade cs (leg_args r oid base qdst p q sid did ts n1 n2) True])"
  using assms
  by (simp add: settle_legs_cross Let_def)

text \<open>
  C2. The claim fails on the cross-chain order-registration path.  In the example the
  source-chain settlement comes back with a receipt of status 0 (the transaction
  reverted), and \<open>register_order_cross\<close> still calls the destination-chain settlement
  and answers with both receipts.
\<close>

theorem cross_registration_settles_destination_after_failed_source:
  "cross_settle (cross_world ''00'') [] (rpc hedera) (contract_address hedera)
     (cross_trade_data ''00'') True = Inr reverted
   \<and> status reverted = 0
   \<and> register_order_cross (cross_world ''00'') (SUPPORTED_NETWORKS example_config)
       [''HBAR_USDT''] cross_payload [] =
     (CrossOK (5 * 10 ^ 18) (5 * 10 ^ 18) 0 None [(reverted, reverted)],
      [NewCrossClient (rpc hedera),
       CrossCheckEscrowBalance (rpc hedera) (contract_address hedera) ''0xseller'' hbar_hedera,
       ProcessOrder ''HBAR_USDT'',
       TokenHex, Time,
       NewCrossClient (rpc hedera), NewCrossClient (rpc ethereum),
       CrossSettle (rpc hedera) (contract_address hedera) (cross_trade_data ''00'') True,
       CrossSettle (rpc ethereum) (contract_address ethereum) (cross_trade_data ''00'') False])"
  by (simp add: cross_registration_run)
     (simp add: cross_world_def example_world_def reverted_def)

section \<open>The settlement id\<close>

lemma digit_char_inj: "a < 10 \<Longrightarrow> b < 10 \<Longrightarrow> digit_char a = digit_char b \<Longrightarrow> a = b"
  by (simp add: digit_char_def char_of_eq_iff take_bit_eq_mod)

lemma str_nat_length: "length (str_nat n) = 1 \<longleftrightarrow> n < 10"
proof (induction n rule: str_nat.induct)
  case (1 n)
  show ?case
  proof (cases "n < 10")
    case True
    then show ?thesis by (subst str_nat.simps) simp
  next
    case False
    have "str_nat (n div 10) \<noteq> []"
      by (subst str_nat.simps) simp
    with False show ?thesis by (subst str_nat.simps) simp
  qed
qed

lemma str_nat_inj: "str_nat m = str_nat n \<Longrightarrow> m = n"
proof (induction m arbitrary: n rule: str_nat.induct)
  case (1 m)
  show ?case
  proof (cases "m < 10")
    case True
    with "1.prems" have "n < 10" using str_nat_length [of m] str_nat_length [of n] by simp
    with True "1.prems" show ?thesis
      by (subst (asm) str_nat.simps, subst (asm) (2) str_nat.simps) (simp add: digit_char_inj)
  next
    case False
    with "1.prems" have n: "\<not> n < 10" using str_nat_length [of m] str_nat_length [of n] by simp
    from False n "1.prems" have
      "str_nat (m div 10) @ [digit_char (m mod 10)] = str_nat (n div 10) @ [digit_char (n mod 10)]"
      by (subst (asm) str_nat.simps, subst (asm) (2) str_nat.simps) simp
    then have a: "str_nat (m div 10) = str_nat (n div 10)"
      and b: "digit_char (m mod 10) = digit_char (n mod 10)" by simp_all
    from "1.IH" [OF False a] have "m div 10 = n div 10" .
    moreover from b have "m mod 10 = n mod 10" by (simp add: digit_char_inj)
    ultimately show ?thesis by (metis div_mult_mod_eq)
  qed
qed

text \<open>
  In the orchestrator the id is a function of the order id, the timestamp and the index
  alone, and two indices give two different strings to hash.
\<close>

lemma settlement_id_preimage_inj:
  assumes "settlement_id_preimage b ts i = settlement_id_preimage b ts j"
  shows "i = j"
proof -
  from assms have "str_nat i = str_nat j"
    by (simp add: settlement_id_preimage_def)
  then show ?thesis by (rule str_nat_inj)
qed

lemma settlement_id_differs:
  assumes "i \<noteq> j"
    and "inj_on (\<lambda>s. take 32 (sha256_hexdigest W s))
           {settlement_id_preimage (strip (str_int orderId)) ts i,
            settlement_id_preimage (strip (str_int orderId)) ts j}"
  shows "settlement_id W orderId ts i \<noteq> settlement_id W orderId ts j"
proof
  assume eq: "settlement_id W orderId ts i = settlement_id W orderId ts j"
  let ?x = "settlement_id_preimage (strip (str_int orderId)) ts i"
  let ?y = "settlement_id_preimage (strip (str_int orderId)) ts j"
  from eq have h: "take 32 (sha256_hexdigest W ?x) = take 32 (sha256_hexdigest W ?y)"
    by (simp only: settlement_id_def)
  have "?x \<in> {?x, ?y}" "?y \<in> {?x, ?y}" by blast+
  with assms(2) h have "?x = ?y" by (meson inj_onD)
  then have "i = j" by (rule settlement_id_preimage_inj)
  with assms(1) show False by contradiction
qed

text \<open>
  C3. The claim fails on the cross-chain order-registration path: there the id is
  \<open>secrets.token_hex(32)\<close>.  The same request, order, trade and trade index are run in
  two worlds that differ in nothing but the random token, and the ids submitted on-chain
  differ.
\<close>

theorem cross_registration_id_is_random:
  "cross_world ''ff'' = (cross_world ''00'')\<lparr>token_hex := (\<lambda>tr. ''ff'')\<rparr>
   \<and> map td_orderId (submitted_structs (snd (register_order_cross (cross_world ''00'')
        (SUPPORTED_NETWORKS example_config) [''HBAR_USDT''] cross_payload [])))
      = [HexBytes ''00'', HexBytes ''00'']
   \<and> map td_orderId (submitted_structs (snd (register_order_cross (cross_world ''ff'')
        (SUPPORTED_NETWORKS example_config) [''HBAR_USDT''] cross_payload [])))
      = [HexBytes ''ff'', HexBytes ''ff'']"
  by (simp add: cross_registration_run cross_trade_data_def)
     (simp add: cross_world_def example_world_def)

section \<open>The price that is settled\<close>

text \<open>
  In the orchestrator every settlement call carries the trade's own price and quantity,
  and \<open>settle_same_chain_trade\<close> hands the contract that price scaled by \<open>10^18\<close>.
\<close>

text \<open>
  C5. The claim fails on the cross-chain order-registration path.  The trade of the
  example executed at the resting order's price 12, the incoming order's limit is 10,
  and the price in the struct submitted on both chains is \<open>10 * 10^18\<close>: the price of the
  request, not the execution price.
\<close>

theorem cross_registration_submits_request_price:
  "price cross_trade = 12 \<and> p_price cross_payload = Some 10
   \<and> pr_trades cross_result = [cross_trade]
   \<and> map td_price (submitted_structs (snd (register_order_cross (cross_world ''00'')
        (SUPPORTED_NETWORKS example_config) [''HBAR_USDT''] cross_payload [])))
      = [10 * 10 ^ 18, 10 * 10 ^ 18]
   \<and> trunc (price cross_trade * 10 ^ 18) = 12 * 10 ^ 18"
proof -
  have "(12::rat) * 10 ^ 18 = of_int (12 * 10 ^ 18)" by simp
  then have "trunc ((12::rat) * 10 ^ 18) = 12 * 10 ^ 18"
    by (simp only: trunc_int)
  moreover have "map td_price (submitted_structs (snd (register_order_cross (cross_world ''00'')
        (SUPPORTED_NETWORKS example_config) [''HBAR_USDT''] cross_payload [])))
      = [10 * 10 ^ 18, 10 * 10 ^ 18]"
    by (simp add: cross_registration_run cross_trade_data_def)
  moreover have "price cross_trade = 12" "p_price cross_payload = Some 10"
    "pr_trades cross_result = [cross_trade]"
    by (simp_all add: cross_trade_def cross_payload_def cross_result_def)
  ultimately show ?thesis by simp
qed

section \<open>The escrow validator, run symbolically\<close>

fun validator_event :: "event \<Rightarrow> bool" where
  "validator_event (NewClient c) = True"
| "validator_event (GetTokenDecimals c t) = True"
| "validator_event (CheckEscrowBalance c u t d) = True"
| "validator_event (Sleep s) = True"
| "validator_event e = False"

lemma balance_loop_shape:
  "\<exists>b new. balance_loop W c u t d b0 atts tr = (Inr b, tr @ new)
      \<and> list_all validator_event new
      \<and> (atts \<noteq> [] \<longrightarrow> (\<exists>h. b = balance_answer W h c u t d))"
proof (induction atts arbitrary: b0 tr)
  case Nil
  show ?case by simp
next
  case (Cons a atts)
  let ?b = "balance_answer W tr c u t d"
  let ?tr = "tr @ [CheckEscrowBalance c u t d] @ [Sleep (1 / 2 * (of_nat a + 1))]"
  show ?case
  proof (cases "has_error ?b")
    case False
    then show ?thesis
      by (auto simp: do_check_escrow_balance_run)
  next
    case True
    from Cons.IH [of ?b ?tr] obtain b new where
      n: "balance_loop W c u t d ?b atts ?tr = (Inr b, ?tr @ new)"
         "list_all validator_event new"
         "atts \<noteq> [] \<longrightarrow> (\<exists>h. b = balance_answer W h c u t d)"
      by blast
    have "atts = [] \<Longrightarrow> b = ?b" using n(1) by simp
    with n(3) have "\<exists>h. b = balance_answer W h c u t d" by (cases atts) auto
    with True n(1,2) show ?thesis
      by (auto simp: do_check_escrow_balance_run)
  qed
qed

text \<open>The client the validator talks to, and what the balance loop ends with.\<close>

definition validator_client :: "config \<Rightarrow> string \<Rightarrow> client" where
  "validator_client cfg network_key =
     (case map_of (SUPPORTED_NETWORKS cfg) network_key of
        None \<Rightarrow> (None, None) | Some n \<Rightarrow> (rpc n, contract_address n))"

definition validation_balance ::
  "world \<Rightarrow> config \<Rightarrow> string \<Rightarrow> string \<Rightarrow> string \<Rightarrow> event list \<Rightarrow> balance_info \<times> event list" where
  "validation_balance W cfg network_key acct tok tr =
     (let c = validator_client cfg network_key;
          tr1 = tr @ [NewClient c];
          token_decimals = decimals_answer W tr1 c (PStr tok);
          tr2 = tr1 @ [GetTokenDecimals c (PStr tok)]
      in case balance_loop W c (PStr acct) (PStr tok) token_decimals (BalanceError [])
                [0, 1, 2, 3] tr2 of
           (Inr b, tr3) \<Rightarrow> (b, tr3)
         | (Inl e, tr3) \<Rightarrow> (BalanceError (str_exn e), tr3))"

definition validation_decimals :: "world \<Rightarrow> config \<Rightarrow> string \<Rightarrow> string \<Rightarrow> event list \<Rightarrow> int" where
  "validation_decimals W cfg network_key tok tr =
     decimals_answer W (tr @ [NewClient (validator_client cfg network_key)])
       (validator_client cfg network_key) (PStr tok)"

lemma validate_run:
  assumes "p_account pl = Some acct" "p_side pl = Some side" "p_quantity pl = Some qty"
    "p_price pl = Some prc" "p_baseAsset pl = Some b" "p_quoteAsset pl = Some q"
    and "from_network = lower (or_str (p_from_network pl) (p_fromNetwork pl))"
    and "tok = (if lower side = ''ask''
                then get_token_address b from_network (SUPPORTED_NETWORKS cfg) (TOKEN_ADDRESSES cfg)
                else get_token_address q from_network (SUPPORTED_NETWORKS cfg) (TOKEN_ADDRESSES cfg))"
    and "token_configured tok"
    and "connect W tr (validator_client cfg from_network) = Inr ()"
    and "required = (if lower side = ''ask'' then qty else qty * prc)"
    and "bal = fst (validation_balance W cfg from_network acct tok tr)"
  shows "validate_order_prerequisites W cfg pl tr =
     (Inr \<lparr>valid = \<not> get_available bal < required,
           errors = (if get_available bal < required
                     then [InsufficientEscrow required (get_available bal)] else []),
           checks = Some \<lparr>c_account = acct, c_side = side, c_token = tok,
                          c_required_amount = required, c_available_escrow = get_available bal,
                          c_total_escrow = get_total bal, c_locked_escrow = get_locked bal,
                          c_network_key = from_network,
                          c_token_decimals = validation_decimals W cfg from_network tok tr\<rparr>\<rparr>,
      snd (validation_balance W cfg from_network acct tok tr))"
proof -
  let ?c = "validator_client cfg from_network"
  let ?d = "decimals_answer W (tr @ [NewClient ?c]) ?c (PStr tok)"
  let ?tr2 = "tr @ [NewClient ?c, GetTokenDecimals ?c (PStr tok)]"
  from balance_loop_shape [of W ?c "PStr acct" "PStr tok" ?d "BalanceError []"
      "[0, Suc 0, 2, 3]" ?tr2]
  obtain bl new where
    bl: "balance_loop W ?c (PStr acct) (PStr tok) ?d (BalanceError []) [0, Suc 0, 2, 3] ?tr2
           = (Inr bl, ?tr2 @ new)" by blast
  have vb: "validation_balance W cfg from_network acct tok tr = (bl, ?tr2 @ new)"
    unfolding validation_balance_def Let_def
    by (simp add: bl del: balance_loop.simps)
  have c: "(case map_of (SUPPORTED_NETWORKS cfg) from_network of
              None \<Rightarrow> (None, None) | Some n \<Rightarrow> (rpc n, contract_address n)) = ?c"
    by (simp add: validator_client_def)
  show ?thesis
    unfolding validate_order_prerequisites_def
    using assms(9,10)
    by (simp add: assms(1-6) assms(7) [symmetric] assms(8) [symmetric] assms(11) [symmetric]
        assms(12) vb c decimals_loop_run bl
        io_try_def io_bind_def lift_def return_def subscript_def new_client_def call_def Let_def
        validation_decimals_def
        del: balance_loop.simps decimals_loop.simps)
qed


section \<open>Which events a computation appends\<close>

definition appends :: "(event \<Rightarrow> bool) \<Rightarrow> 'a io \<Rightarrow> bool" where
  "appends P m = (\<forall>tr. \<exists>new. snd (m tr) = tr @ new \<and> list_all P new)"







lemma appends_mono: "appends P m \<Longrightarrow> (\<And>e. P e \<Longrightarrow> Q e) \<Longrightarrow> appends Q m"
  unfolding appends_def by (metis (mono_tags, lifting) list_all_iff)








section \<open>Admission to the book\<close>

definition is_cross_request :: "payload \<Rightarrow> bool" where
  "is_cross_request pl =
     (let from_net = lower (or_str (p_from_network pl) (p_fromNetwork pl));
          to_net = lower (or_str (p_to_network pl) (p_toNetwork pl))
      in from_net \<noteq> [] \<and> to_net \<noteq> [] \<and> from_net \<noteq> to_net)"









text \<open>The bid of the example needs 50 USDT; only 5 are available.\<close>

lemma example_balance:
  "balance_answer (example_world raw dec pr late tok) tr c (PStr u) (PStr t) d =
     Balances \<lparr>total = of_int raw / divisor d, total_wei = raw,
               available = of_int raw / divisor d, available_wei = raw,
               locked = 0, locked_wei = 0, user = u, token = t\<rparr>"
  by (simp add: balance_answer_def check_escrow_balance_def example_world_def example_web3_def
      checksum_of_def try_except_def bind_raise_def)

lemma example_decimals:
  "decimals_answer (example_world raw dec pr late tok) tr c (PStr t) =
     (case dec of Inl e \<Rightarrow> 18 | Inr n \<Rightarrow> n)"
  by (simp add: decimals_answer_def get_token_decimals_def example_world_def example_web3_def
      checksum_of_def try_except_def bind_raise_def split: sum.splits)

lemma example_validation_balance:
  "validation_balance (example_world raw dec pr late tok) example_config ''hedera'' u t tr =
     (balance_answer (example_world raw dec pr late tok) tr hedera_client (PStr u) (PStr t)
        (case dec of Inl e \<Rightarrow> 18 | Inr n \<Rightarrow> n),
      tr @ [NewClient hedera_client, GetTokenDecimals hedera_client (PStr t),
            CheckEscrowBalance hedera_client (PStr u) (PStr t)
              (case dec of Inl e \<Rightarrow> 18 | Inr n \<Rightarrow> n)])"
proof -
  have c: "validator_client example_config ''hedera'' = hedera_client"
    by (simp add: validator_client_def example_config_def hedera_def hedera_client_def)
  show ?thesis
    unfolding validation_balance_def Let_def c
    by (simp add: example_decimals do_check_escrow_balance_run example_balance)
qed

lemma example_payload_facts:
  "\<not> p_attach_signature example_payload" "\<not> is_cross_request example_payload"
  "p_account example_payload = Some ''0xbuyer''" "p_side example_payload = Some ''bid''"
  "p_quantity example_payload = Some 5" "p_price example_payload = Some 10"
  "p_baseAsset example_payload = Some ''HBAR''" "p_quoteAsset example_payload = Some ''USDT''"
  "lower (or_str (p_from_network example_payload) (p_fromNetwork example_payload)) = ''hedera''"
  "lower ''bid'' = ''bid''"
  "get_token_address ''USDT'' ''hedera'' (SUPPORTED_NETWORKS example_config)
     (TOKEN_ADDRESSES example_config) = usdt_hedera"
  "token_configured usdt_hedera"
  "validator_client example_config ''hedera'' = hedera_client"
  by code_simp+


text \<open>
  C8. The claim fails.  \<open>get_token_decimals\<close> never raises: it answers 18 itself when the
  lookup fails, so the loop in the validator returns on its first attempt and the
  default of the asset is never used.  In the example the buyer holds exactly the 50
  USDT the bid needs (raw amount 50000000 at six decimals), the \<open>decimals()\<close> call fails
  with an RPC error, and the validator makes one attempt, works with 18 decimals and not
  with the 6 configured for USDT, and rejects the order.
\<close>

definition usdt_world :: world where
  "usdt_world = example_world 50000000 (Inl (PyExn ''429'')) (example_result None) False ''00''"

theorem decimals_fallback_is_18_not_default:
  "default_decimals ''USDT'' = 6
   \<and> read_decimals_raw (web3_at usdt_world [NewClient hedera_client] hedera_client)
        (PStr usdt_hedera) = Inl (PyExn ''429'')
   \<and> validate_order_prerequisites usdt_world example_config example_payload [] =
     (Inr \<lparr>valid = False,
           errors = [InsufficientEscrow 50 (50000000 / 10 ^ 18)],
           checks = Some \<lparr>c_account = ''0xbuyer'', c_side = ''bid'', c_token = usdt_hedera,
                          c_required_amount = 50, c_available_escrow = 50000000 / 10 ^ 18,
                          c_total_escrow = 50000000 / 10 ^ 18, c_locked_escrow = 0,
                          c_network_key = ''hedera'', c_token_decimals = 18\<rparr>\<rparr>,
      [NewClient hedera_client, GetTokenDecimals hedera_client (PStr usdt_hedera),
       CheckEscrowBalance hedera_client (PStr ''0xbuyer'') (PStr usdt_hedera) 18])
   \<and> (50000000 / divisor (default_decimals ''USDT'') :: rat) = 50"
proof -
  have d: "default_decimals ''USDT'' = 6" by code_simp
  have r: "read_decimals_raw (web3_at usdt_world [NewClient hedera_client] hedera_client)
        (PStr usdt_hedera) = Inl (PyExn ''429'')"
    by (simp add: usdt_world_def example_world_def example_web3_def read_decimals_raw_def
        checksum_of_def bind_raise_def)
  have c: "connect usdt_world [] (validator_client example_config ''hedera'') = Inr ()"
    by (simp add: usdt_world_def example_world_def)
  have vb: "validation_balance usdt_world example_config ''hedera'' ''0xbuyer'' usdt_hedera []
      = (balance_answer usdt_world [] hedera_client (PStr ''0xbuyer'') (PStr usdt_hedera) 18,
         [NewClient hedera_client, GetTokenDecimals hedera_client (PStr usdt_hedera),
          CheckEscrowBalance hedera_client (PStr ''0xbuyer'') (PStr usdt_hedera) 18])"
    unfolding usdt_world_def by (simp add: example_validation_balance)
  have ba: "balance_answer usdt_world [] hedera_client (PStr ''0xbuyer'') (PStr usdt_hedera) 18
      = Balances \<lparr>total = 50000000 / 10 ^ 18, total_wei = 50000000,
               available = 50000000 / 10 ^ 18, available_wei = 50000000,
               locked = 0, locked_wei = 0, user = ''0xbuyer'', token = usdt_hedera\<rparr>"
    unfolding usdt_world_def by (simp add: example_balance divisor_18)
  have vd: "validation_decimals usdt_world example_config ''hedera'' usdt_hedera [] = 18"
    unfolding usdt_world_def validation_decimals_def by (simp add: example_decimals)
  have tok: "usdt_hedera = (if lower ''bid'' = ''ask''
                then get_token_address ''HBAR'' ''hedera'' (SUPPORTED_NETWORKS example_config)
                       (TOKEN_ADDRESSES example_config)
                else get_token_address ''USDT'' ''hedera'' (SUPPORTED_NETWORKS example_config)
                       (TOKEN_ADDRESSES example_config))"
    by (simp add: example_payload_facts)
  have req: "(50::rat) = (if lower ''bid'' = ''ask'' then 5 else 5 * 10)"
    by (simp add: example_payload_facts)
  note run = validate_run [OF example_payload_facts(3-8) example_payload_facts(9) [symmetric]
      tok example_payload_facts(12) c req refl]
  have v: "validate_order_prerequisites usdt_world example_config example_payload [] =
     (Inr \<lparr>valid = False,
           errors = [InsufficientEscrow 50 (50000000 / 10 ^ 18)],
           checks = Some \<lparr>c_account = ''0xbuyer'', c_side = ''bid'', c_token = usdt_hedera,
                          c_required_amount = 50, c_available_escrow = 50000000 / 10 ^ 18,
                          c_total_escrow = 50000000 / 10 ^ 18, c_locked_escrow = 0,
                          c_network_key = ''hedera'', c_token_decimals = 18\<rparr>\<rparr>,
      [NewClient hedera_client, GetTokenDecimals hedera_client (PStr usdt_hedera),
       CheckEscrowBalance hedera_client (PStr ''0xbuyer'') (PStr usdt_hedera) 18])"
    using run by (simp add: vb ba vd)
  have e: "(50000000 / divisor (default_decimals ''USDT'') :: rat) = 50"
    by (simp add: d divisor_def)
  from d r v e show ?thesis by simp
qed

end
